theory Spec2Isabelle
  imports Main
begin

section \<open>Python values, exceptions and the generator interface\<close>

text \<open>
  The development embeds the two trampoline echo servers of the repository,
  \<^verbatim>\<open>src/trampolinepfp.py\<close> (suffix \<open>_pfp\<close>) and \<open>src/treamp2.py\<close> (suffix \<open>_t2\<close>).
  Generator objects are mutable and shared by reference (the scheduler keeps them in
  resume closures and in parent chains), so they are named by an identity and live in a
  store; sockets are named by their descriptor; \<open>bytes\<close> are strings of 8-bit characters.
\<close>

type_synonym gid = nat
type_synonym sock = nat
type_synonym bytes = string

datatype exc_class =
  StopIteration | ConnectionLost | OSError | TypeError | RuntimeError
  | ValueError | AttributeError | UnicodeDecodeError

datatype pyval =
  PNone
  | PGen gid
  | PBytes bytes
  | PSock sock
  | PExcType exc_class
  | PExcInst exc_class pyval
  | PTraceback

text \<open>An exception in flight: its class and, for \<open>StopIteration\<close>, the value it carries.\<close>

datatype exn = Exn exc_class pyval

text \<open>\<open>sys.exc_info()\<close> while handling an exception: (type, instance, traceback).\<close>

fun exc_info :: "exn \<Rightarrow> pyval list" where
  "exc_info (Exn c v) = [PExcType c, PExcInst c v, PTraceback]"

text \<open>
  What a resume step does to its coroutine (\<open>coroutine.send(value)\<close> or
  \<open>coroutine.throw(*args)\<close>), what comes back (a yielded value or a raised exception,
  \<open>StopIteration\<close> when the generator is exhausted), and the calls a coroutine body can
  make on the scheduler while it runs (\<open>trampoline.add(g)\<close>, \<open>trampoline.stop()\<close>).
\<close>

datatype inject = Send pyval | Throw "pyval list"

datatype outcome = Yielded pyval | Raised exn

datatype cmd = Add gid | Stop

type_synonym 'w stepfn = "gid \<Rightarrow> inject \<Rightarrow> 'w \<Rightarrow> outcome \<times> cmd list \<times> 'w"

section \<open>The Trampoline scheduler\<close>

text \<open>
  A queued \<open>resume\<close> closure captures the arguments of \<open>schedule\<close>: the coroutine, its
  parent chain (the nested pairs \<open>(coroutine, stack)\<close> as a list, top parent first), the
  value \<open>val\<close> and the extra positional arguments \<open>*exc\<close>.
\<close>

record entry =
  coroutine :: gid
  stack :: "gid list"
  val :: pyval
  exc :: "pyval list"

record 'w trampoline =
  queue :: "entry list"
  running :: bool
  world :: 'w

definition schedule :: "gid \<Rightarrow> gid list \<Rightarrow> pyval \<Rightarrow> pyval list \<Rightarrow> 'w trampoline \<Rightarrow> 'w trampoline" where
  "schedule c st v ex t =
     t\<lparr>queue := queue t @ [\<lparr>coroutine = c, stack = st, val = v, exc = ex\<rparr>]\<rparr>"

definition add :: "gid \<Rightarrow> 'w trampoline \<Rightarrow> 'w trampoline" where
  "add c t = schedule c [] PNone [] t"

definition stop :: "'w trampoline \<Rightarrow> 'w trampoline" where
  "stop t = t\<lparr>running := False\<rparr>"

fun perform :: "cmd list \<Rightarrow> 'w trampoline \<Rightarrow> 'w trampoline" where
  "perform [] t = t"
| "perform (Add g # cs) t = perform cs (add g t)"
| "perform (Stop # cs) t = perform cs (stop t)"

text \<open>
  \<open>schedule(stack[0], stack[1], *sys.exc_info())\<close>: the exception type lands in
  \<open>val\<close>, the instance and the traceback in \<open>*exc\<close>.
\<close>

fun schedule_exc_info :: "gid \<Rightarrow> gid list \<Rightarrow> exn \<Rightarrow> 'w trampoline \<Rightarrow> 'w trampoline" where
  "schedule_exc_info p ps x t = schedule p ps (hd (exc_info x)) (tl (exc_info x)) t"

text \<open>
  The coroutine call of a resume step: \<open>coroutine.throw(*exc)\<close> in
  \<open>trampolinepfp.py\<close>, \<open>coroutine.throw(value, *exc)\<close> in \<open>treamp2.py\<close>, when \<open>exc\<close> is
  not empty, \<open>coroutine.send(value)\<close> otherwise; then the calls the body made on the
  scheduler.
\<close>

definition inject_pfp :: "entry \<Rightarrow> inject" where
  "inject_pfp e = (if exc e \<noteq> [] then Throw (exc e) else Send (val e))"

definition inject_t2 :: "entry \<Rightarrow> inject" where
  "inject_t2 e = (if exc e \<noteq> [] then Throw (val e # exc e) else Send (val e))"

definition call_pfp :: "'w stepfn \<Rightarrow> entry \<Rightarrow> 'w trampoline \<Rightarrow> outcome \<times> 'w trampoline" where
  "call_pfp step e t =
     (case step (coroutine e) (inject_pfp e) (world t) of
        (out, cmds, w') \<Rightarrow> (out, perform cmds (t\<lparr>world := w'\<rparr>)))"

definition call_t2 :: "'w stepfn \<Rightarrow> entry \<Rightarrow> 'w trampoline \<Rightarrow> outcome \<times> 'w trampoline" where
  "call_t2 step e t =
     (case step (coroutine e) (inject_t2 e) (world t) of
        (out, cmds, w') \<Rightarrow> (out, perform cmds (t\<lparr>world := w'\<rparr>)))"

text \<open>
  \<open>resume\<close> of \<open>trampolinepfp.py\<close>: only \<open>StopIteration\<close> is caught; the \<open>else\<close> branch
  handles a yielded value. \<open>Inl\<close> is an exception leaving the closure.
\<close>

definition resume_pfp :: "'w stepfn \<Rightarrow> entry \<Rightarrow> 'w trampoline \<Rightarrow> (exn \<times> 'w trampoline) + 'w trampoline" where
  "resume_pfp step e t =
     (case call_pfp step e t of
        (Raised (Exn c v), t1) \<Rightarrow>
          if c = StopIteration then
            (case stack e of
               p # ps \<Rightarrow> Inr (schedule_exc_info p ps (Exn c v) t1)
             | [] \<Rightarrow> Inl (Exn c v, t1))
          else Inl (Exn c v, t1)
      | (Yielded value, t1) \<Rightarrow>
          (case value of
             PGen g \<Rightarrow> Inr (schedule g (coroutine e # stack e) PNone [] t1)
           | _ \<Rightarrow>
             (case stack e of
                p # ps \<Rightarrow> Inr (schedule p ps value [] t1)
              | [] \<Rightarrow> Inr t1)))"

text \<open>
  \<open>resume\<close> of \<open>treamp2.py\<close>: a bare \<open>except\<close>; after it has scheduled the parent with
  the exception, control falls out of the \<open>try\<close> statement into the tests on \<open>value\<close>,
  which still holds \<open>val\<close>.
\<close>

definition dispatch_t2 :: "entry \<Rightarrow> pyval \<Rightarrow> 'w trampoline \<Rightarrow> 'w trampoline" where
  "dispatch_t2 e value t =
     (case value of
        PGen g \<Rightarrow> schedule g (coroutine e # stack e) PNone [] t
      | _ \<Rightarrow>
        (case stack e of
           p # ps \<Rightarrow> schedule p ps value [] t
         | [] \<Rightarrow> t))"

definition resume_t2 :: "'w stepfn \<Rightarrow> entry \<Rightarrow> 'w trampoline \<Rightarrow> (exn \<times> 'w trampoline) + 'w trampoline" where
  "resume_t2 step e t =
     (case call_t2 step e t of
        (Raised x, t1) \<Rightarrow>
          (case stack e of
             p # ps \<Rightarrow> Inr (dispatch_t2 e (val e) (schedule_exc_info p ps x t1))
           | [] \<Rightarrow> Inl (x, t1))
      | (Yielded value, t1) \<Rightarrow> Inr (dispatch_t2 e value t1))"

text \<open>
  \<open>run\<close>: the loop runs while \<open>self.running\<close>; with an empty queue it sleeps and tests
  again, so it returns only once the flag is cleared. The loop is given fuel, one unit
  per iteration; \<open>Spins\<close> is a loop that has not left after that many iterations.
  \<open>Raises\<close> is an exception leaving \<open>run\<close>.
\<close>

datatype 'w run_result =
  Returns "'w trampoline" | Raises exn "'w trampoline" | Spins "'w trampoline"

type_synonym 'w resumefn = "entry \<Rightarrow> 'w trampoline \<Rightarrow> (exn \<times> 'w trampoline) + 'w trampoline"

fun run_loop :: "'w resumefn \<Rightarrow> nat \<Rightarrow> 'w trampoline \<Rightarrow> 'w run_result" where
  "run_loop resume 0 t = Spins t"
| "run_loop resume (Suc n) t =
     (if running t then
        (case queue t of
           [] \<Rightarrow> run_loop resume n t
         | task # q \<Rightarrow>
           (case resume task (t\<lparr>queue := q\<rparr>) of
              Inl (x, t') \<Rightarrow> Raises x t'
            | Inr t' \<Rightarrow> run_loop resume n t'))
      else Returns t)"

text \<open>The \<open>finally\<close> clause clears the flag on both ways out of the loop.\<close>

definition run :: "'w resumefn \<Rightarrow> nat \<Rightarrow> 'w trampoline \<Rightarrow> 'w run_result" where
  "run resume n t =
     (case run_loop resume n (t\<lparr>running := True\<rparr>) of
        Returns t' \<Rightarrow> Returns (t'\<lparr>running := False\<rparr>)
      | Raises x t' \<Rightarrow> Raises x (t'\<lparr>running := False\<rparr>)
      | Spins t' \<Rightarrow> Spins t')"

definition run_pfp :: "'w stepfn \<Rightarrow> nat \<Rightarrow> 'w trampoline \<Rightarrow> 'w run_result" where
  "run_pfp step = run (resume_pfp step)"

definition run_t2 :: "'w stepfn \<Rightarrow> nat \<Rightarrow> 'w trampoline \<Rightarrow> 'w run_result" where
  "run_t2 step = run (resume_t2 step)"

section \<open>Sockets and the readiness multiplexer\<close>

text \<open>
  The operating system is a script: what each successive call of \<open>select.select\<close>,
  \<open>recv\<close>, \<open>send\<close> and \<open>accept\<close> answers, in call order. A call past the end of its
  script gets the quiet answer (no descriptor ready within the timeout, end of stream,
  the whole buffer taken, nothing to accept). \<open>select\<close> can fail in two ways: with an
  \<open>OSError\<close> (\<open>SelFault\<close>), or, on a descriptor that has been closed, with a
  \<open>ValueError\<close> (\<open>SelClosed\<close>), which is not a \<open>socket.error\<close>. A fault of \<open>recv\<close>,
  \<open>send\<close> or \<open>accept\<close> is an \<open>OSError\<close>. \<open>send\<close> answers with the room the kernel
  has; the call returns how many bytes it took, never more than it was given, and every
  call is logged with its socket, its argument and the count it returned.
\<close>

datatype sel = NotReady | IsReady | SelFault | SelClosed

datatype 'a io = Ok 'a | IOFault

record env =
  selects :: "sel list"
  recvs :: "bytes io list"
  sends :: "nat io list"
  accepts :: "sock io list"
  sent_log :: "(sock \<times> bytes \<times> nat) list"

definition os_select :: "env \<Rightarrow> sel \<times> env" where
  "os_select E =
     (case selects E of
        [] \<Rightarrow> (NotReady, E)
      | r # rs \<Rightarrow> (r, E\<lparr>selects := rs\<rparr>))"

definition os_recv :: "nat \<Rightarrow> env \<Rightarrow> bytes io \<times> env" where
  "os_recv bufsize E =
     (case recvs E of
        [] \<Rightarrow> (Ok [], E)
      | IOFault # rs \<Rightarrow> (IOFault, E\<lparr>recvs := rs\<rparr>)
      | Ok d # rs \<Rightarrow>
          (Ok (take bufsize d),
           E\<lparr>recvs := (if length d \<le> bufsize then rs else Ok (drop bufsize d) # rs)\<rparr>))"

definition os_send :: "sock \<Rightarrow> bytes \<Rightarrow> env \<Rightarrow> nat io \<times> env" where
  "os_send s data E =
     (case sends E of
        [] \<Rightarrow> (Ok (length data), E\<lparr>sent_log := sent_log E @ [(s, data, length data)]\<rparr>)
      | IOFault # rs \<Rightarrow> (IOFault, E\<lparr>sends := rs\<rparr>)
      | Ok room # rs \<Rightarrow>
          (Ok (min room (length data)),
           E\<lparr>sends := rs, sent_log := sent_log E @ [(s, data, min room (length data))]\<rparr>))"

definition os_accept :: "env \<Rightarrow> sock io \<times> env" where
  "os_accept E =
     (case accepts E of
        [] \<Rightarrow> (IOFault, E)
      | r # rs \<Rightarrow> (r, E\<lparr>accepts := rs\<rparr>))"

section \<open>The suspension primitives\<close>

text \<open>
  One run of a generator body from where it stands to its next \<open>yield\<close>, \<open>return\<close> or
  \<open>raise\<close>: \<open>GYield v st\<close> yields \<open>v\<close> and is suspended in state \<open>st\<close>.
\<close>

datatype ('s, 'r) gres = GYield pyval 's | GReturn 'r | GRaise exn

subsection \<open>trampolinepfp.py\<close>

text \<open>\<open>nonblocking_read\<close>: one turn of \<open>while True\<close>. No \<open>try\<close>: a fault leaves as it is.\<close>

definition nonblocking_read_pfp :: "sock \<Rightarrow> nat \<Rightarrow> env \<Rightarrow> (unit, bytes) gres \<times> env" where
  "nonblocking_read_pfp s chunk_size E =
     (case os_select E of
        (SelFault, E1) \<Rightarrow> (GRaise (Exn OSError PNone), E1)
      | (SelClosed, E1) \<Rightarrow> (GRaise (Exn ValueError PNone), E1)
      | (IsReady, E1) \<Rightarrow>
          (case os_recv chunk_size E1 of
             (IOFault, E2) \<Rightarrow> (GRaise (Exn OSError PNone), E2)
           | (Ok data, E2) \<Rightarrow>
               if data = [] then (GRaise (Exn ConnectionLost PNone), E2)
               else (GReturn data, E2))
      | (NotReady, E1) \<Rightarrow> (GYield PNone (), E1))"

text \<open>
  \<open>nonblocking_write\<close>: from the test of \<open>while data\<close>; the state at the \<open>yield\<close> is the
  data still to send, \<open>data[sent:]\<close>.
\<close>

definition nonblocking_write_pfp :: "sock \<Rightarrow> bytes \<Rightarrow> env \<Rightarrow> (bytes, unit) gres \<times> env" where
  "nonblocking_write_pfp s data E =
     (if data = [] then (GReturn (), E)
      else
        (case os_select E of
           (SelFault, E1) \<Rightarrow> (GRaise (Exn OSError PNone), E1)
         | (SelClosed, E1) \<Rightarrow> (GRaise (Exn ValueError PNone), E1)
         | (IsReady, E1) \<Rightarrow>
             (case os_send s data E1 of
                (IOFault, E2) \<Rightarrow> (GRaise (Exn OSError PNone), E2)
              | (Ok sent, E2) \<Rightarrow> (GYield PNone (drop sent data), E2))
         | (NotReady, E1) \<Rightarrow> (GYield PNone data, E1)))"

text \<open>
  \<open>nonblocking_accept\<close>: it yields the client socket and, resumed there, returns
  (\<open>None\<close>). \<open>delivered\<close> says that the generator stands at \<open>yield client_sock\<close>; the
  state is \<open>False\<close> at the start and at \<open>yield None\<close>.
\<close>

definition nonblocking_accept_pfp :: "sock \<Rightarrow> bool \<Rightarrow> env \<Rightarrow> (bool, pyval) gres \<times> env" where
  "nonblocking_accept_pfp s delivered E =
     (if delivered then (GReturn PNone, E)
      else
        (case os_select E of
           (SelFault, E1) \<Rightarrow> (GRaise (Exn OSError PNone), E1)
         | (SelClosed, E1) \<Rightarrow> (GRaise (Exn ValueError PNone), E1)
         | (IsReady, E1) \<Rightarrow>
             (case os_accept E1 of
                (IOFault, E2) \<Rightarrow> (GRaise (Exn OSError PNone), E2)
              | (Ok client_sock, E2) \<Rightarrow> (GYield (PSock client_sock) True, E2))
         | (NotReady, E1) \<Rightarrow> (GYield PNone False, E1)))"

subsection \<open>treamp2.py\<close>

text \<open>
  The same bodies inside \<open>try: ... except socket.error: raise ConnectionLost()\<close>
  (\<open>socket.error\<close> is \<open>OSError\<close>; \<open>ConnectionLost\<close> derives from \<open>Exception\<close> and passes).
  The \<open>isinstance\<close> test at their start wraps a socket that is not yet a
  \<open>SocketWrapper\<close>; a \<open>sock\<close> of the model is the wrapped socket either way.
\<close>

definition except_socket_error :: "exn \<Rightarrow> exn" where
  "except_socket_error x =
     (case x of Exn c v \<Rightarrow> if c = OSError then Exn ConnectionLost PNone else Exn c v)"

definition try_socket_error :: "('s, 'r) gres \<times> env \<Rightarrow> ('s, 'r) gres \<times> env" where
  "try_socket_error r =
     (case r of
        (GRaise x, E) \<Rightarrow> (GRaise (except_socket_error x), E)
      | _ \<Rightarrow> r)"

definition nonblocking_read_t2 :: "sock \<Rightarrow> nat \<Rightarrow> env \<Rightarrow> (unit, bytes) gres \<times> env" where
  "nonblocking_read_t2 s chunk_size E =
     try_socket_error
       (case os_select E of
          (SelFault, E1) \<Rightarrow> (GRaise (Exn OSError PNone), E1)
        | (SelClosed, E1) \<Rightarrow> (GRaise (Exn ValueError PNone), E1)
        | (IsReady, E1) \<Rightarrow>
            (case os_recv chunk_size E1 of
               (IOFault, E2) \<Rightarrow> (GRaise (Exn OSError PNone), E2)
             | (Ok data, E2) \<Rightarrow>
                 if data = [] then (GRaise (Exn ConnectionLost PNone), E2)
                 else (GReturn data, E2))
        | (NotReady, E1) \<Rightarrow> (GYield PNone (), E1))"

definition nonblocking_write_t2 :: "sock \<Rightarrow> bytes \<Rightarrow> env \<Rightarrow> (bytes, unit) gres \<times> env" where
  "nonblocking_write_t2 s data E =
     (if data = [] then (GReturn (), E)
      else
        try_socket_error
          (case os_select E of
             (SelFault, E1) \<Rightarrow> (GRaise (Exn OSError PNone), E1)
           | (SelClosed, E1) \<Rightarrow> (GRaise (Exn ValueError PNone), E1)
           | (IsReady, E1) \<Rightarrow>
               (case os_send s data E1 of
                  (IOFault, E2) \<Rightarrow> (GRaise (Exn OSError PNone), E2)
                | (Ok sent, E2) \<Rightarrow> (GYield PNone (drop sent data), E2))
           | (NotReady, E1) \<Rightarrow> (GYield PNone data, E1)))"

definition nonblocking_accept_t2 :: "sock \<Rightarrow> bool \<Rightarrow> env \<Rightarrow> (bool, pyval) gres \<times> env" where
  "nonblocking_accept_t2 s delivered E =
     (if delivered then (GReturn PNone, E)
      else
        try_socket_error
          (case os_select E of
             (SelFault, E1) \<Rightarrow> (GRaise (Exn OSError PNone), E1)
           | (SelClosed, E1) \<Rightarrow> (GRaise (Exn ValueError PNone), E1)
           | (IsReady, E1) \<Rightarrow>
               (case os_accept E1 of
                  (IOFault, E2) \<Rightarrow> (GRaise (Exn OSError PNone), E2)
                | (Ok client_sock, E2) \<Rightarrow> (GYield (PSock client_sock) True, E2))
           | (NotReady, E1) \<Rightarrow> (GYield PNone False, E1)))"

section \<open>Generator objects\<close>

text \<open>
  The control state of a generator body: which generator function it runs, with which
  arguments, and where it is suspended. The primitives have one constructor each (their
  state at a \<open>yield\<close> is their state at the start); \<open>echo_handler\<close> and \<open>listen_on\<close>
  have one for the call that has not started and one per suspension point. A generator
  suspended in \<open>yield from\<close> holds the state of the generator it delegates to.
\<close>

datatype code =
  Read_pfp sock nat
  | Write_pfp sock bytes
  | Accept_pfp sock bool
  | Echo_pfp "sock option"
  | EchoReading_pfp sock
  | EchoWriting_pfp sock bytes
  | Listen_pfp "sock option"
  | Listening_pfp sock bool
  | Read_t2 sock nat
  | Write_t2 sock bytes
  | Accept_t2 sock bool
  | Echo_t2 "sock option"
  | EchoAwaitRead_t2 sock
  | EchoAwaitWrite_t2 sock bytes
  | Listen_t2 "sock option"
  | Listening_t2 sock bool

datatype gstate = Created code | Suspended code | Finished

record pyworld =
  heap :: "gstate list"
  env :: env

text \<open>How a body is resumed at its \<open>yield\<close>, and how one run of it ends.\<close>

datatype rin = RSend pyval | RThrow exn

datatype bres = BYield pyval code | BReturn pyval | BRaise exn

text \<open>
  PEP 479: a \<open>StopIteration\<close> that propagates out of a generator body becomes a
  \<open>RuntimeError\<close>.
\<close>

definition pep479 :: "exn \<Rightarrow> exn" where
  "pep479 x = (case x of Exn c v \<Rightarrow> if c = StopIteration then Exn RuntimeError PNone else Exn c v)"

text \<open>
  \<open>except ConnectionLost: pass\<close> (or \<open>break\<close>) around the loop of \<open>echo_handler\<close> and
  \<open>listen_on\<close>: the function then ends and returns \<open>None\<close>.
\<close>

definition except_ConnectionLost :: "exn \<Rightarrow> bres" where
  "except_ConnectionLost x =
     (case x of Exn c v \<Rightarrow> if c = ConnectionLost then BReturn PNone else BRaise (Exn c v))"

definition truthy :: "pyval \<Rightarrow> bool" where
  "truthy v = (case v of PNone \<Rightarrow> False | PBytes d \<Rightarrow> d \<noteq> [] | _ \<Rightarrow> True)"

definition as_sock :: "pyval \<Rightarrow> sock option" where
  "as_sock v = (case v of PSock s \<Rightarrow> Some s | _ \<Rightarrow> None)"

text \<open>\<open>data.decode('utf-8')\<close> succeeds on well-formed UTF-8 only.\<close>

datatype utf8_state = U0 | U1 | U2 | U3 | UE0 | UED | UF0 | UF4

definition utf8_next :: "utf8_state option \<Rightarrow> nat \<Rightarrow> utf8_state option" where
  "utf8_next st b =
     (case st of
        None \<Rightarrow> None
      | Some U0 \<Rightarrow>
          if b < 128 then Some U0
          else if 194 \<le> b \<and> b < 224 then Some U1
          else if b = 224 then Some UE0
          else if b = 237 then Some UED
          else if 225 \<le> b \<and> b < 240 then Some U2
          else if b = 240 then Some UF0
          else if 241 \<le> b \<and> b < 244 then Some U3
          else if b = 244 then Some UF4
          else None
      | Some U1 \<Rightarrow> if 128 \<le> b \<and> b < 192 then Some U0 else None
      | Some U2 \<Rightarrow> if 128 \<le> b \<and> b < 192 then Some U1 else None
      | Some U3 \<Rightarrow> if 128 \<le> b \<and> b < 192 then Some U2 else None
      | Some UE0 \<Rightarrow> if 160 \<le> b \<and> b < 192 then Some U1 else None
      | Some UED \<Rightarrow> if 128 \<le> b \<and> b < 160 then Some U1 else None
      | Some UF0 \<Rightarrow> if 144 \<le> b \<and> b < 192 then Some U2 else None
      | Some UF4 \<Rightarrow> if 128 \<le> b \<and> b < 144 then Some U2 else None)"

definition utf8_valid :: "bytes \<Rightarrow> bool" where
  "utf8_valid d = (foldl utf8_next (Some U0) (map of_char d) = Some U0)"

subsection \<open>echo_handler and listen_on of trampolinepfp.py\<close>

text \<open>
  \<open>echo_handler\<close>: the loop \<open>data = yield from nonblocking_read(sock); yield from
  nonblocking_write(sock, data)\<close> inside \<open>try ... except ConnectionLost: pass\<close>, run to
  the next \<open>yield\<close> of the generator it delegates to.
\<close>

lemma nonblocking_read_pfp_returns:
  "nonblocking_read_pfp s n E = (GReturn d, E1) \<Longrightarrow> length (selects E1) < length (selects E)"
  by (auto simp: nonblocking_read_pfp_def os_select_def os_recv_def
      split: list.splits sel.splits io.splits if_splits prod.splits)

lemma nonblocking_write_pfp_returns:
  "nonblocking_write_pfp s d E = (GReturn u, E1) \<Longrightarrow> E1 = E"
  by (auto simp: nonblocking_write_pfp_def split: if_splits sel.splits io.splits prod.splits)

function echo_read_pfp :: "sock \<Rightarrow> env \<Rightarrow> bres \<times> env"
  and echo_write_pfp :: "sock \<Rightarrow> bytes \<Rightarrow> env \<Rightarrow> bres \<times> env" where
  "echo_read_pfp s E =
     (case nonblocking_read_pfp s 8192 E of
        (GYield v u, E1) \<Rightarrow> (BYield v (EchoReading_pfp s), E1)
      | (GReturn data, E1) \<Rightarrow> echo_write_pfp s data E1
      | (GRaise x, E1) \<Rightarrow> (except_ConnectionLost (pep479 x), E1))"
| "echo_write_pfp s data E =
     (case nonblocking_write_pfp s data E of
        (GYield v rest, E1) \<Rightarrow> (BYield v (EchoWriting_pfp s rest), E1)
      | (GReturn u, E1) \<Rightarrow> echo_read_pfp s E1
      | (GRaise x, E1) \<Rightarrow> (except_ConnectionLost (pep479 x), E1))"
  by pat_completeness auto
termination
proof (relation "measure (\<lambda>x. case x of
          Inl (s, E) \<Rightarrow> 2 * length (selects E)
        | Inr (s, d, E) \<Rightarrow> 2 * length (selects E) + 1)", goal_cases)
  case 1
  show ?case by simp
next
  case (2 s E x1 E1 d)
  then have "nonblocking_read_pfp s 8192 E = (GReturn d, E1)" by simp
  from nonblocking_read_pfp_returns [OF this] show ?case by simp
next
  case (3 s d E x1 E1 u)
  then have "nonblocking_write_pfp s d E = (GReturn u, E1)" by simp
  from nonblocking_write_pfp_returns [OF this] show ?case by simp
qed

lemma nonblocking_accept_pfp_returns:
  "nonblocking_accept_pfp s st E = (GReturn r, E1) \<Longrightarrow> st"
  by (auto simp: nonblocking_accept_pfp_def split: if_splits sel.splits io.splits prod.splits)

text \<open>
  \<open>listen_on\<close>: \<open>client_sock = yield from nonblocking_accept(sock)\<close>, then
  \<open>trampoline.add(handler(client_sock))\<close> with \<open>handler = echo_handler\<close>, as the main
  program passes it; the new generator object is allocated in the store. The value of
  \<open>yield from\<close> is what the generator delegated to returns.
\<close>

function listen_pfp :: "sock \<Rightarrow> bool \<Rightarrow> pyworld \<Rightarrow> bres \<times> cmd list \<times> pyworld" where
  "listen_pfp s st W =
     (case nonblocking_accept_pfp s st (env W) of
        (GYield v st', E1) \<Rightarrow> (BYield v (Listening_pfp s st'), [], W\<lparr>env := E1\<rparr>)
      | (GReturn client_sock, E1) \<Rightarrow>
          (case listen_pfp s False
                  (W\<lparr>env := E1, heap := heap W @ [Created (Echo_pfp (as_sock client_sock))]\<rparr>) of
             (r, cmds, W2) \<Rightarrow> (r, Add (length (heap W)) # cmds, W2))
      | (GRaise x, E1) \<Rightarrow> (except_ConnectionLost (pep479 x), [], W\<lparr>env := E1\<rparr>))"
  by pat_completeness auto
termination
proof (relation "measure (\<lambda>(s, st, W). if st then 1 else 0)", goal_cases)
  case 1
  show ?case by simp
next
  case (2 s st W x1 E1 r)
  then have "nonblocking_accept_pfp s st (env W) = (GReturn r, E1)" by simp
  from nonblocking_accept_pfp_returns [OF this] show ?case by simp
qed

subsection \<open>echo_handler and listen_on of treamp2.py\<close>

lemma nonblocking_accept_t2_returns:
  "nonblocking_accept_t2 s st E = (GReturn r, E1) \<Longrightarrow> st"
  by (auto simp: nonblocking_accept_t2_def try_socket_error_def
      split: if_splits sel.splits io.splits prod.splits)

text \<open>
  \<open>listen_on\<close>: as above, with \<open>if client_sock:\<close> before the handler is created and
  added.
\<close>

function listen_t2 :: "sock \<Rightarrow> bool \<Rightarrow> pyworld \<Rightarrow> bres \<times> cmd list \<times> pyworld" where
  "listen_t2 s st W =
     (case nonblocking_accept_t2 s st (env W) of
        (GYield v st', E1) \<Rightarrow> (BYield v (Listening_t2 s st'), [], W\<lparr>env := E1\<rparr>)
      | (GReturn client_sock, E1) \<Rightarrow>
          (if truthy client_sock then
             (case listen_t2 s False
                     (W\<lparr>env := E1, heap := heap W @ [Created (Echo_t2 (as_sock client_sock))]\<rparr>) of
                (r, cmds, W2) \<Rightarrow> (r, Add (length (heap W)) # cmds, W2))
           else listen_t2 s False (W\<lparr>env := E1\<rparr>))
      | (GRaise x, E1) \<Rightarrow> (except_ConnectionLost (pep479 x), [], W\<lparr>env := E1\<rparr>))"
  by pat_completeness auto
termination
proof (relation "measure (\<lambda>(s, st, W). if st then 1 else 0)", goal_cases)
  case 1
  show ?case by simp
next
  case (2 s st W x1 E1 r)
  then have "nonblocking_accept_t2 s st (env W) = (GReturn r, E1)" by simp
  from nonblocking_accept_t2_returns [OF this] show ?case by simp
next
  case (3 s st W x1 E1 r)
  then have "nonblocking_accept_t2 s st (env W) = (GReturn r, E1)" by simp
  from nonblocking_accept_t2_returns [OF this] show ?case by simp
qed

subsection \<open>One run of a generator body\<close>

text \<open>
  \<open>body c r W\<close> runs the body standing at \<open>c\<close>, resumed with \<open>r\<close>, to its next \<open>yield\<close>,
  \<open>return\<close> or \<open>raise\<close>. A call that has not started ignores \<open>r\<close> (it is only ever
  started with \<open>None\<close>). An exception thrown in at a \<open>yield\<close> of \<open>trampolinepfp.py\<close>'s
  primitives leaves as it is; in \<open>treamp2.py\<close> the \<open>yield\<close> stands inside the \<open>try\<close>.
  \<open>echo_handler\<close> of \<open>treamp2.py\<close> yields new generator objects to the scheduler.
\<close>

definition with_env :: "pyworld \<Rightarrow> bres \<times> env \<Rightarrow> bres \<times> cmd list \<times> pyworld" where
  "with_env W r = (case r of (b, E1) \<Rightarrow> (b, [], W\<lparr>env := E1\<rparr>))"

definition yield_new :: "code \<Rightarrow> code \<Rightarrow> pyworld \<Rightarrow> bres \<times> cmd list \<times> pyworld" where
  "yield_new fresh c W =
     (BYield (PGen (length (heap W))) c, [], W\<lparr>heap := heap W @ [Created fresh]\<rparr>)"

fun body :: "code \<Rightarrow> rin \<Rightarrow> pyworld \<Rightarrow> bres \<times> cmd list \<times> pyworld" where
  "body (Read_pfp s n) (RSend v) W =
     (case nonblocking_read_pfp s n (env W) of
        (GYield y u, E1) \<Rightarrow> (BYield y (Read_pfp s n), [], W\<lparr>env := E1\<rparr>)
      | (GReturn data, E1) \<Rightarrow> (BReturn (PBytes data), [], W\<lparr>env := E1\<rparr>)
      | (GRaise x, E1) \<Rightarrow> (BRaise x, [], W\<lparr>env := E1\<rparr>))"
| "body (Read_pfp s n) (RThrow x) W = (BRaise x, [], W)"
| "body (Write_pfp s data) (RSend v) W =
     (case nonblocking_write_pfp s data (env W) of
        (GYield y rest, E1) \<Rightarrow> (BYield y (Write_pfp s rest), [], W\<lparr>env := E1\<rparr>)
      | (GReturn u, E1) \<Rightarrow> (BReturn PNone, [], W\<lparr>env := E1\<rparr>)
      | (GRaise x, E1) \<Rightarrow> (BRaise x, [], W\<lparr>env := E1\<rparr>))"
| "body (Write_pfp s data) (RThrow x) W = (BRaise x, [], W)"
| "body (Accept_pfp s st) (RSend v) W =
     (case nonblocking_accept_pfp s st (env W) of
        (GYield y st', E1) \<Rightarrow> (BYield y (Accept_pfp s st'), [], W\<lparr>env := E1\<rparr>)
      | (GReturn r, E1) \<Rightarrow> (BReturn r, [], W\<lparr>env := E1\<rparr>)
      | (GRaise x, E1) \<Rightarrow> (BRaise x, [], W\<lparr>env := E1\<rparr>))"
| "body (Accept_pfp s st) (RThrow x) W = (BRaise x, [], W)"
| "body (Echo_pfp so) r W =
     (case so of
        None \<Rightarrow> (BRaise (Exn AttributeError PNone), [], W)
      | Some s \<Rightarrow> with_env W (echo_read_pfp s (env W)))"
| "body (EchoReading_pfp s) (RSend v) W = with_env W (echo_read_pfp s (env W))"
| "body (EchoReading_pfp s) (RThrow x) W = (except_ConnectionLost (pep479 x), [], W)"
| "body (EchoWriting_pfp s data) (RSend v) W = with_env W (echo_write_pfp s data (env W))"
| "body (EchoWriting_pfp s data) (RThrow x) W = (except_ConnectionLost (pep479 x), [], W)"
| "body (Listen_pfp so) r W =
     (case so of
        None \<Rightarrow> (BRaise (Exn AttributeError PNone), [], W)
      | Some s \<Rightarrow> listen_pfp s False W)"
| "body (Listening_pfp s st) (RSend v) W = listen_pfp s st W"
| "body (Listening_pfp s st) (RThrow x) W = (except_ConnectionLost (pep479 x), [], W)"
| "body (Read_t2 s n) (RSend v) W =
     (case nonblocking_read_t2 s n (env W) of
        (GYield y u, E1) \<Rightarrow> (BYield y (Read_t2 s n), [], W\<lparr>env := E1\<rparr>)
      | (GReturn data, E1) \<Rightarrow> (BReturn (PBytes data), [], W\<lparr>env := E1\<rparr>)
      | (GRaise x, E1) \<Rightarrow> (BRaise x, [], W\<lparr>env := E1\<rparr>))"
| "body (Read_t2 s n) (RThrow x) W = (BRaise (except_socket_error x), [], W)"
| "body (Write_t2 s data) (RSend v) W =
     (case nonblocking_write_t2 s data (env W) of
        (GYield y rest, E1) \<Rightarrow> (BYield y (Write_t2 s rest), [], W\<lparr>env := E1\<rparr>)
      | (GReturn u, E1) \<Rightarrow> (BReturn PNone, [], W\<lparr>env := E1\<rparr>)
      | (GRaise x, E1) \<Rightarrow> (BRaise x, [], W\<lparr>env := E1\<rparr>))"
| "body (Write_t2 s data) (RThrow x) W = (BRaise (except_socket_error x), [], W)"
| "body (Accept_t2 s st) (RSend v) W =
     (case nonblocking_accept_t2 s st (env W) of
        (GYield y st', E1) \<Rightarrow> (BYield y (Accept_t2 s st'), [], W\<lparr>env := E1\<rparr>)
      | (GReturn r, E1) \<Rightarrow> (BReturn r, [], W\<lparr>env := E1\<rparr>)
      | (GRaise x, E1) \<Rightarrow> (BRaise x, [], W\<lparr>env := E1\<rparr>))"
| "body (Accept_t2 s st) (RThrow x) W = (BRaise (except_socket_error x), [], W)"
| "body (Echo_t2 so) r W =
     (case so of
        None \<Rightarrow> (BRaise (Exn ValueError PNone), [], W)
      | Some s \<Rightarrow> yield_new (Read_t2 s 8192) (EchoAwaitRead_t2 s) W)"
| "body (EchoAwaitRead_t2 s) (RSend data) W =
     (case data of
        PBytes d \<Rightarrow>
          if utf8_valid d then yield_new (Write_t2 s d) (EchoAwaitWrite_t2 s d) W
          else (except_ConnectionLost (Exn UnicodeDecodeError PNone), [], W)
      | _ \<Rightarrow> (except_ConnectionLost (Exn AttributeError PNone), [], W))"
| "body (EchoAwaitRead_t2 s) (RThrow x) W = (except_ConnectionLost x, [], W)"
| "body (EchoAwaitWrite_t2 s data) (RSend v) W =
     yield_new (Read_t2 s 8192) (EchoAwaitRead_t2 s) W"
| "body (EchoAwaitWrite_t2 s data) (RThrow x) W = (except_ConnectionLost x, [], W)"
| "body (Listen_t2 so) r W =
     (case so of
        None \<Rightarrow> (BRaise (Exn ValueError PNone), [], W)
      | Some s \<Rightarrow> listen_t2 s False W)"
| "body (Listening_t2 s st) (RSend v) W = listen_t2 s st W"
| "body (Listening_t2 s st) (RThrow x) W =
     (except_ConnectionLost (pep479 (except_socket_error x)), [], W)"

subsection \<open>The generator protocol\<close>

text \<open>
  \<open>send\<close> and \<open>throw\<close> of a generator object: a generator that has not started takes
  \<open>None\<close> only and, thrown at, ends without running any of its body (the exception
  leaves it, under PEP 479 like any other); an exhausted one raises \<open>StopIteration\<close>; a
  \<open>return\<close> raises \<open>StopIteration\<close> with the value.
\<close>

definition lookup :: "pyworld \<Rightarrow> gid \<Rightarrow> gstate" where
  "lookup W g = (if g < length (heap W) then heap W ! g else Finished)"

definition settle :: "gid \<Rightarrow> bres \<times> cmd list \<times> pyworld \<Rightarrow> outcome \<times> cmd list \<times> pyworld" where
  "settle g r =
     (case r of
        (BYield v c, cmds, W) \<Rightarrow> (Yielded v, cmds, W\<lparr>heap := (heap W)[g := Suspended c]\<rparr>)
      | (BReturn v, cmds, W) \<Rightarrow>
          (Raised (Exn StopIteration v), cmds, W\<lparr>heap := (heap W)[g := Finished]\<rparr>)
      | (BRaise x, cmds, W) \<Rightarrow> (Raised (pep479 x), cmds, W\<lparr>heap := (heap W)[g := Finished]\<rparr>))"

definition gen_send :: "gid \<Rightarrow> pyval \<Rightarrow> pyworld \<Rightarrow> outcome \<times> cmd list \<times> pyworld" where
  "gen_send g v W =
     (case lookup W g of
        Created c \<Rightarrow>
          if v = PNone then settle g (body c (RSend PNone) W)
          else (Raised (Exn TypeError PNone), [], W)
      | Suspended c \<Rightarrow> settle g (body c (RSend v) W)
      | Finished \<Rightarrow> (Raised (Exn StopIteration PNone), [], W))"

text \<open>
  The arguments of \<open>throw(typ[, val[, tb]])\<close>: a class with nothing, \<open>None\<close>, one of its
  instances or a constructor argument; or an instance with no separate value. Anything
  else is a \<open>TypeError\<close> of the call itself.
\<close>

definition instantiate :: "exc_class \<Rightarrow> pyval \<Rightarrow> exn" where
  "instantiate c arg =
     (if c = UnicodeDecodeError then Exn TypeError PNone
      else Exn c (if c = StopIteration then arg else PNone))"

definition is_subclass :: "exc_class \<Rightarrow> exc_class \<Rightarrow> bool" where
  "is_subclass c' c = (c' = c \<or> (c' = UnicodeDecodeError \<and> c = ValueError))"

definition throw_value :: "pyval \<Rightarrow> pyval \<Rightarrow> exn + exn" where
  "throw_value typ v =
     (case typ of
        PExcType c \<Rightarrow>
          (case v of
             PNone \<Rightarrow> Inr (instantiate c PNone)
           | PExcInst c' a \<Rightarrow> if is_subclass c' c then Inr (Exn c' a) else Inr (instantiate c v)
           | _ \<Rightarrow> Inr (instantiate c v))
      | PExcInst c a \<Rightarrow> if v = PNone then Inr (Exn c a) else Inl (Exn TypeError PNone)
      | _ \<Rightarrow> Inl (Exn TypeError PNone))"

datatype thrown = BadCall | BadArgs | Good exn

definition throw_args :: "pyval list \<Rightarrow> thrown" where
  "throw_args args =
     (case args of
        [typ] \<Rightarrow> (case throw_value typ PNone of Inl x \<Rightarrow> BadArgs | Inr x \<Rightarrow> Good x)
      | [typ, v] \<Rightarrow> (case throw_value typ v of Inl x \<Rightarrow> BadArgs | Inr x \<Rightarrow> Good x)
      | [typ, v, tb] \<Rightarrow>
          if tb = PNone \<or> tb = PTraceback then
            (case throw_value typ v of Inl x \<Rightarrow> BadArgs | Inr x \<Rightarrow> Good x)
          else BadArgs
      | _ \<Rightarrow> BadCall)"

text \<open>
  A generator suspended in \<open>yield from\<close> passes the arguments of \<open>throw\<close> on; the
  \<open>TypeError\<close> for bad arguments then arrives at its \<open>yield from\<close>.
\<close>

fun delegating :: "code \<Rightarrow> bool" where
  "delegating (EchoReading_pfp s) = True"
| "delegating (EchoWriting_pfp s d) = True"
| "delegating (Listening_pfp s st) = True"
| "delegating (Listening_t2 s st) = True"
| "delegating c = False"

definition gen_throw :: "gid \<Rightarrow> pyval list \<Rightarrow> pyworld \<Rightarrow> outcome \<times> cmd list \<times> pyworld" where
  "gen_throw g args W =
     (case throw_args args of
        BadCall \<Rightarrow> (Raised (Exn TypeError PNone), [], W)
      | BadArgs \<Rightarrow>
          (case lookup W g of
             Suspended c \<Rightarrow>
               if delegating c then settle g (body c (RThrow (Exn TypeError PNone)) W)
               else (Raised (Exn TypeError PNone), [], W)
           | _ \<Rightarrow> (Raised (Exn TypeError PNone), [], W))
      | Good x \<Rightarrow>
          (case lookup W g of
             Created c \<Rightarrow> (Raised (pep479 x), [], W\<lparr>heap := (heap W)[g := Finished]\<rparr>)
           | Suspended c \<Rightarrow> settle g (body c (RThrow x) W)
           | Finished \<Rightarrow> (Raised x, [], W)))"

definition py_step :: "pyworld stepfn" where
  "py_step g i W = (case i of Send v \<Rightarrow> gen_send g v W | Throw args \<Rightarrow> gen_throw g args W)"

section \<open>The scheduler object and sample tasks\<close>

text \<open>\<open>Trampoline()\<close>: an empty queue, not running.\<close>

definition Trampoline :: "'w \<Rightarrow> 'w trampoline" where
  "Trampoline w = \<lparr>queue = [], running = False, world = w\<rparr>"

text \<open>An operating system with nothing scripted.\<close>

definition quiet :: env where
  "quiet = \<lparr>selects = [], recvs = [], sends = [], accepts = [], sent_log = []\<rparr>"

text \<open>
  A caller's coroutine whose body calls \<open>trampoline.stop()\<close> and yields \<open>None\<close>, every
  time it is resumed.
\<close>

definition stopping_task :: "unit stepfn" where
  "stopping_task g i w = (Yielded PNone, [Stop], w)"

text \<open>
  A caller's coroutine whose body calls \<open>trampoline.stop()\<close> and then ends (its
  \<open>send\<close> raises \<open>StopIteration\<close>).
\<close>

definition stopping_last_task :: "unit stepfn" where
  "stopping_last_task g i w = (Raised (Exn StopIteration PNone), [Stop], w)"

text \<open>The suspension points of \<open>echo_handler\<close>, in either file.\<close>

fun echo_suspended :: "code \<Rightarrow> bool" where
  "echo_suspended (EchoReading_pfp s) = True"
| "echo_suspended (EchoWriting_pfp s d) = True"
| "echo_suspended (EchoAwaitRead_t2 s) = True"
| "echo_suspended (EchoAwaitWrite_t2 s d) = True"
| "echo_suspended c = False"

section \<open>Scheduler lemmas\<close>

lemma queue_schedule:
  "queue (schedule c st v ex t) = queue t @ [\<lparr>coroutine = c, stack = st, val = v, exc = ex\<rparr>]"
  by (simp add: schedule_def)

lemma running_schedule: "running (schedule c st v ex t) = running t"
  by (simp add: schedule_def)

lemma world_schedule: "world (schedule c st v ex t) = world t"
  by (simp add: schedule_def)

lemma running_perform: "running (perform cmds t) = (running t \<and> Stop \<notin> set cmds)"
  by (induction cmds t rule: perform.induct) (auto simp: add_def stop_def running_schedule)

lemma world_perform: "world (perform cmds t) = world t"
  by (induction cmds t rule: perform.induct) (auto simp: add_def stop_def world_schedule)

lemma queue_perform: "\<exists>new. queue (perform cmds t) = queue t @ new"
  by (induction cmds t rule: perform.induct) (auto simp: add_def stop_def queue_schedule)

lemma run_loop_stopped: "\<not> running t \<Longrightarrow> run_loop resume (Suc n) t = Returns t"
  by simp

lemma run_loop_idle: "running t \<Longrightarrow> queue t = [] \<Longrightarrow> run_loop resume n t = Spins t"
  by (induction n) auto

lemma run_loop_exit_flag:
  "run_loop resume n t = Returns t' \<Longrightarrow> \<not> running t'"
  by (induction resume n t rule: run_loop.induct)
     (auto split: if_splits list.splits sum.splits prod.splits)

lemma run_Returns: "run resume n t = Returns t' \<Longrightarrow> \<not> running t'"
  by (auto simp: run_def split: run_result.splits)

lemma run_Raises: "run resume n t = Raises x t' \<Longrightarrow> \<not> running t'"
  by (auto simp: run_def split: run_result.splits)

lemma run_flag_irrelevant: "run resume n (t\<lparr>running := b\<rparr>) = run resume n t"
  by (simp add: run_def)

lemma resume_pfp_Inr:
  assumes "resume_pfp step e t = Inr t'"
    and "step (coroutine e) (inject_pfp e) (world t) = (out, cmds, w')"
  shows "running t' = (running t \<and> Stop \<notin> set cmds) \<and> world t' = w' \<and> (\<exists>new. queue t' = queue t @ new)"
proof -
  obtain new where q: "queue (perform cmds (t\<lparr>world := w'\<rparr>)) = queue t @ new"
    using queue_perform [of cmds "t\<lparr>world := w'\<rparr>"] by auto
  show ?thesis
    using assms q
    by (auto simp: resume_pfp_def call_pfp_def running_schedule world_schedule queue_schedule
        running_perform world_perform
        split: outcome.splits exn.splits if_splits list.splits pyval.splits)
qed

lemma resume_t2_Inr:
  assumes "resume_t2 step e t = Inr t'"
    and "step (coroutine e) (inject_t2 e) (world t) = (out, cmds, w')"
  shows "running t' = (running t \<and> Stop \<notin> set cmds) \<and> world t' = w' \<and> (\<exists>new. queue t' = queue t @ new)"
proof -
  obtain new where q: "queue (perform cmds (t\<lparr>world := w'\<rparr>)) = queue t @ new"
    using queue_perform [of cmds "t\<lparr>world := w'\<rparr>"] by auto
  show ?thesis
    using assms q
    by (auto simp: resume_t2_def call_t2_def dispatch_t2_def running_schedule world_schedule
        queue_schedule running_perform world_perform
        split: outcome.splits exn.splits if_splits list.splits pyval.splits)
qed

lemma resume_pfp_toplevel_raise:
  assumes "stack e = []" and "step (coroutine e) (inject_pfp e) (world t) = (Raised x, cmds, w')"
  shows "resume_pfp step e t = Inl (x, perform cmds (t\<lparr>world := w'\<rparr>))"
  using assms by (cases x) (simp add: resume_pfp_def call_pfp_def)

lemma resume_t2_toplevel_raise:
  assumes "stack e = []" and "step (coroutine e) (inject_t2 e) (world t) = (Raised x, cmds, w')"
  shows "resume_t2 step e t = Inl (x, perform cmds (t\<lparr>world := w'\<rparr>))"
  using assms by (simp add: resume_t2_def call_t2_def)

lemma resume_pfp_bare_yield:
  assumes "stack e = []" and "\<forall>g. v \<noteq> PGen g"
    and "step (coroutine e) (inject_pfp e) (world t) = (Yielded v, cmds, w')"
  shows "resume_pfp step e t = Inr (perform cmds (t\<lparr>world := w'\<rparr>))"
  using assms by (cases v) (simp_all add: resume_pfp_def call_pfp_def)

lemma resume_t2_bare_yield:
  assumes "stack e = []" and "\<forall>g. v \<noteq> PGen g"
    and "step (coroutine e) (inject_t2 e) (world t) = (Yielded v, cmds, w')"
  shows "resume_t2 step e t = Inr (perform cmds (t\<lparr>world := w'\<rparr>))"
  using assms by (cases v) (simp_all add: resume_t2_def call_t2_def dispatch_t2_def)

lemma unset_running: "\<not> running t \<Longrightarrow> t\<lparr>running := False\<rparr> = t"
  by (cases t) simp

lemma queue_dispatch_t2: "\<exists>rest. queue (dispatch_t2 e v t) = queue t @ rest"
  by (auto simp: dispatch_t2_def queue_schedule split: pyval.splits list.splits)

lemma resume_pfp_exhausted:
  assumes "stack e = p # ps"
    and "step (coroutine e) (inject_pfp e) (world t) = (Raised (Exn StopIteration v), cmds, w')"
  shows "resume_pfp step e t
           = Inr (schedule p ps (PExcType StopIteration) [PExcInst StopIteration v, PTraceback]
                    (perform cmds (t\<lparr>world := w'\<rparr>)))"
  using assms by (simp add: resume_pfp_def call_pfp_def)

lemma resume_t2_raised:
  assumes "stack e = p # ps"
    and "step (coroutine e) (inject_t2 e) (world t) = (Raised (Exn c v), cmds, w')"
  shows "\<exists>t'' rest. resume_t2 step e t = Inr t''
           \<and> queue t'' = queue (perform cmds (t\<lparr>world := w'\<rparr>))
                @ \<lparr>coroutine = p, stack = ps, val = PExcType c, exc = [PExcInst c v, PTraceback]\<rparr> # rest"
proof -
  let ?t1 = "schedule p ps (PExcType c) [PExcInst c v, PTraceback] (perform cmds (t\<lparr>world := w'\<rparr>))"
  have r: "resume_t2 step e t = Inr (dispatch_t2 e (val e) ?t1)"
    using assms by (simp add: resume_t2_def call_t2_def)
  obtain rest where "queue (dispatch_t2 e (val e) ?t1) = queue ?t1 @ rest"
    using queue_dispatch_t2 by blast
  with r show ?thesis by (auto simp: queue_schedule)
qed

lemma run_loop_more_fuel:
  "run_loop resume n t = Raises x t' \<Longrightarrow> run_loop resume (n + k) t = Raises x t'"
  "run_loop resume n t = Returns t' \<Longrightarrow> run_loop resume (n + k) t = Returns t'"
  by (induction resume n t rule: run_loop.induct)
     (auto split: if_splits list.splits sum.splits prod.splits)

lemma run_more_fuel:
  "run resume n t = Raises x t' \<Longrightarrow> run resume (n + k) t = Raises x t'"
  "run resume n t = Returns t' \<Longrightarrow> run resume (n + k) t = Returns t'"
  by (auto simp: run_def run_loop_more_fuel split: run_result.splits)

lemma resume_pfp_ends_normally:
  assumes "step (coroutine e) (inject_pfp e) (world t) = (out, cmds, w')"
    and "(\<exists>v. out = Yielded v) \<or> (\<exists>v. out = Raised (Exn StopIteration v) \<and> stack e \<noteq> [])"
  shows "\<exists>t'. resume_pfp step e t = Inr t'"
  using assms
  by (auto simp: resume_pfp_def call_pfp_def split: pyval.splits list.splits)

lemma resume_pfp_raises:
  assumes "step (coroutine e) (inject_pfp e) (world t) = (Raised (Exn c v), cmds, w')"
    and "c \<noteq> StopIteration \<or> stack e = []"
  shows "resume_pfp step e t = Inl (Exn c v, perform cmds (t\<lparr>world := w'\<rparr>))"
  using assms by (auto simp: resume_pfp_def call_pfp_def split: list.splits)

lemma resume_t2_ends_normally:
  assumes "step (coroutine e) (inject_t2 e) (world t) = (out, cmds, w')"
    and "(\<exists>v. out = Yielded v) \<or> stack e \<noteq> []"
  shows "\<exists>t'. resume_t2 step e t = Inr t'"
  using assms
  by (cases out) (auto simp: resume_t2_def call_t2_def split: list.splits)

lemma run_after_stopping_step:
  assumes "resume e \<lparr>queue = q, running = True, world = w\<rparr> = Inr t'" and "\<not> running t'"
  shows "run resume (Suc (Suc n)) \<lparr>queue = e # q, running = r, world = w\<rparr> = Returns t'"
  using assms by (simp add: run_def unset_running)

lemma run_after_raising_step:
  assumes "resume e \<lparr>queue = q, running = True, world = w\<rparr> = Inl (x, t')"
  shows "run resume (Suc n) \<lparr>queue = e # q, running = r, world = w\<rparr>
           = Raises x (t'\<lparr>running := False\<rparr>)"
  using assms by (simp add: run_def)

lemma stopped_pfp_returns:
  assumes s: "step (coroutine e) (inject_pfp e) w = (out, cmds, w')" and c: "Stop \<in> set cmds"
    and o: "(\<exists>v. out = Yielded v) \<or> (\<exists>v. out = Raised (Exn StopIteration v) \<and> stack e \<noteq> [])"
  shows "\<exists>t' new. run_pfp step (Suc (Suc n)) \<lparr>queue = e # q, running = r, world = w\<rparr> = Returns t'
           \<and> \<not> running t' \<and> world t' = w' \<and> queue t' = q @ new"
proof -
  let ?t = "\<lparr>queue = q, running = True, world = w\<rparr>"
  from resume_pfp_ends_normally [of step e ?t out cmds w'] s o
  obtain t' where r: "resume_pfp step e ?t = Inr t'" by auto
  from resume_pfp_Inr [OF r, of out cmds w'] s c
  obtain new where f: "\<not> running t'" "world t' = w'" "queue t' = q @ new" by auto
  from run_after_stopping_step [of "resume_pfp step" e q w t' n r] r f show ?thesis
    by (auto simp: run_pfp_def)
qed

lemma stopped_t2_returns:
  assumes s: "step (coroutine e) (inject_t2 e) w = (out, cmds, w')" and c: "Stop \<in> set cmds"
    and o: "(\<exists>v. out = Yielded v) \<or> stack e \<noteq> []"
  shows "\<exists>t' new. run_t2 step (Suc (Suc n)) \<lparr>queue = e # q, running = r, world = w\<rparr> = Returns t'
           \<and> \<not> running t' \<and> world t' = w' \<and> queue t' = q @ new"
proof -
  let ?t = "\<lparr>queue = q, running = True, world = w\<rparr>"
  from resume_t2_ends_normally [of step e ?t out cmds w'] s o
  obtain t' where r: "resume_t2 step e ?t = Inr t'" by auto
  from resume_t2_Inr [OF r, of out cmds w'] s c
  obtain new where f: "\<not> running t'" "world t' = w'" "queue t' = q @ new" by auto
  from run_after_stopping_step [of "resume_t2 step" e q w t' n r] r f show ?thesis
    by (auto simp: run_t2_def)
qed

lemma stopped_pfp_raises:
  assumes s: "step (coroutine e) (inject_pfp e) w = (Raised (Exn c v), cmds, w')"
    and o: "c \<noteq> StopIteration \<or> stack e = []"
  shows "\<exists>t' new. run_pfp step (Suc n) \<lparr>queue = e # q, running = r, world = w\<rparr> = Raises (Exn c v) t'
           \<and> \<not> running t' \<and> world t' = w' \<and> queue t' = q @ new"
proof -
  let ?t = "\<lparr>queue = q, running = True, world = w\<rparr>"
  from resume_pfp_raises [of step e ?t c v cmds w'] s o
  have r: "resume_pfp step e ?t = Inl (Exn c v, perform cmds (?t\<lparr>world := w'\<rparr>))" by simp
  obtain new where n: "queue (perform cmds (?t\<lparr>world := w'\<rparr>)) = q @ new"
    using queue_perform [of cmds "?t\<lparr>world := w'\<rparr>"] by auto
  from run_after_raising_step [of "resume_pfp step" e q w "Exn c v"
      "perform cmds (?t\<lparr>world := w'\<rparr>)" n r] r n
  show ?thesis by (auto simp: run_pfp_def world_perform)
qed

lemma stopped_t2_raises:
  assumes s: "step (coroutine e) (inject_t2 e) w = (Raised x, cmds, w')" and o: "stack e = []"
  shows "\<exists>t' new. run_t2 step (Suc n) \<lparr>queue = e # q, running = r, world = w\<rparr> = Raises x t'
           \<and> \<not> running t' \<and> world t' = w' \<and> queue t' = q @ new"
proof -
  let ?t = "\<lparr>queue = q, running = True, world = w\<rparr>"
  from resume_t2_toplevel_raise [OF o, of step ?t x cmds w'] s
  have r: "resume_t2 step e ?t = Inl (x, perform cmds (?t\<lparr>world := w'\<rparr>))" by simp
  obtain new where n: "queue (perform cmds (?t\<lparr>world := w'\<rparr>)) = q @ new"
    using queue_perform [of cmds "?t\<lparr>world := w'\<rparr>"] by auto
  from run_after_raising_step [of "resume_t2 step" e q w x
      "perform cmds (?t\<lparr>world := w'\<rparr>)" n r] r n
  show ?thesis by (auto simp: run_t2_def world_perform)
qed

section \<open>The claims\<close>

subsection \<open>C1: a fault of a top-level task\<close>

text \<open>
  Claim C1 says that \<open>run\<close> catches and logs a fault raised by a resume step of a task
  with an empty parent chain, and goes on with the remaining queued tasks. It does not:
  \<open>run\<close> has \<open>try ... finally\<close> and no \<open>except\<close>. With \<open>echo_handler\<close> and \<open>listen_on\<close>
  added to the scheduler of \<open>trampolinepfp.py\<close> and a \<open>select\<close> that fails in the
  handler's first read, \<open>run\<close> ends with that \<open>OSError\<close>; the listener is still queued
  and has never run.
\<close>

theorem run_does_not_survive_toplevel_fault:
  "run_pfp py_step 5
     (add 1 (add 0 (Trampoline
        \<lparr>heap = [Created (Echo_pfp (Some 7)), Created (Listen_pfp (Some 3))],
         env = quiet\<lparr>selects := [SelFault]\<rparr>\<rparr>)))
    = Raises (Exn OSError PNone)
        \<lparr>queue = [\<lparr>coroutine = 1, stack = [], val = PNone, exc = []\<rparr>], running = False,
         world = \<lparr>heap = [Finished, Created (Listen_pfp (Some 3))], env = quiet\<rparr>\<rparr>"
  by code_simp

text \<open>
  Claim C1 as amended: when a resume step of a task with an empty parent chain raises
  an exception (\<open>StopIteration\<close> included), in either file, that exception leaves \<open>run\<close>;
  \<open>running\<close> is cleared on the way out, and the tasks that were queued behind the step
  are still queued, in order, followed by what the step itself added; none of them has
  been resumed.
\<close>

theorem toplevel_fault_leaves_run:
  assumes "stack e = []"
  shows "(step (coroutine e) (inject_pfp e) w = (Raised x, cmds, w') \<longrightarrow>
           (\<exists>t' new. run_pfp step (Suc n) \<lparr>queue = e # q, running = r, world = w\<rparr> = Raises x t'
              \<and> \<not> running t' \<and> world t' = w' \<and> queue t' = q @ new \<and> (cmds = [] \<longrightarrow> new = [])))
       \<and> (step (coroutine e) (inject_t2 e) w = (Raised x, cmds, w') \<longrightarrow>
           (\<exists>t' new. run_t2 step (Suc n) \<lparr>queue = e # q, running = r, world = w\<rparr> = Raises x t'
              \<and> \<not> running t' \<and> world t' = w' \<and> queue t' = q @ new \<and> (cmds = [] \<longrightarrow> new = [])))"
proof (intro conjI impI)
  let ?t = "\<lparr>queue = q, running = True, world = w\<rparr>"
  obtain new where q: "queue (perform cmds (?t\<lparr>world := w'\<rparr>)) = q @ new"
    using queue_perform [of cmds "?t\<lparr>world := w'\<rparr>"] by auto
  have e: "cmds = [] \<longrightarrow> new = []" using q by auto
  {
    assume s: "step (coroutine e) (inject_pfp e) w = (Raised x, cmds, w')"
    have "resume_pfp step e ?t = Inl (x, perform cmds (?t\<lparr>world := w'\<rparr>))"
      using resume_pfp_toplevel_raise [OF assms, of step ?t x cmds w'] s by simp
    then have "run_pfp step (Suc n) \<lparr>queue = e # q, running = r, world = w\<rparr>
        = Raises x ((perform cmds (?t\<lparr>world := w'\<rparr>))\<lparr>running := False\<rparr>)"
      by (simp add: run_pfp_def run_def)
    with q e show "\<exists>t' new. run_pfp step (Suc n) \<lparr>queue = e # q, running = r, world = w\<rparr> = Raises x t'
              \<and> \<not> running t' \<and> world t' = w' \<and> queue t' = q @ new \<and> (cmds = [] \<longrightarrow> new = [])"
      by (auto simp: world_perform)
  }
  {
    assume s: "step (coroutine e) (inject_t2 e) w = (Raised x, cmds, w')"
    have "resume_t2 step e ?t = Inl (x, perform cmds (?t\<lparr>world := w'\<rparr>))"
      using resume_t2_toplevel_raise [OF assms, of step ?t x cmds w'] s by simp
    then have "run_t2 step (Suc n) \<lparr>queue = e # q, running = r, world = w\<rparr>
        = Raises x ((perform cmds (?t\<lparr>world := w'\<rparr>))\<lparr>running := False\<rparr>)"
      by (simp add: run_t2_def run_def)
    with q e show "\<exists>t' new. run_t2 step (Suc n) \<lparr>queue = e # q, running = r, world = w\<rparr> = Raises x t'
              \<and> \<not> running t' \<and> world t' = w' \<and> queue t' = q @ new \<and> (cmds = [] \<longrightarrow> new = [])"
      by (auto simp: world_perform)
  }
qed

theorem toplevel_fault_leaves_run_witness:
  "stack \<lparr>coroutine = 0, stack = [], val = PNone, exc = []\<rparr> = []
   \<and> py_step 0 (inject_t2 \<lparr>coroutine = 0, stack = [], val = PNone, exc = []\<rparr>)
        \<lparr>heap = [Created (Echo_t2 None), Created (Listen_t2 (Some 3))], env = quiet\<rparr>
      = (Raised (Exn ValueError PNone), [],
         \<lparr>heap = [Finished, Created (Listen_t2 (Some 3))], env = quiet\<rparr>)
   \<and> (\<exists>t' new. run_t2 py_step (Suc 4)
          \<lparr>queue = [\<lparr>coroutine = 0, stack = [], val = PNone, exc = []\<rparr>,
                    \<lparr>coroutine = 1, stack = [], val = PNone, exc = []\<rparr>], running = False,
           world = \<lparr>heap = [Created (Echo_t2 None), Created (Listen_t2 (Some 3))], env = quiet\<rparr>\<rparr>
         = Raises (Exn ValueError PNone) t'
         \<and> \<not> running t'
         \<and> world t' = \<lparr>heap = [Finished, Created (Listen_t2 (Some 3))], env = quiet\<rparr>
         \<and> queue t' = [\<lparr>coroutine = 1, stack = [], val = PNone, exc = []\<rparr>] @ new \<and> new = [])"
proof -
  let ?e = "\<lparr>coroutine = 0, stack = [], val = PNone, exc = []\<rparr>"
  let ?W = "\<lparr>heap = [Created (Echo_t2 None), Created (Listen_t2 (Some 3))], env = quiet\<rparr>"
  let ?W' = "\<lparr>heap = [Finished, Created (Listen_t2 (Some 3))], env = quiet\<rparr>"
  have a: "stack ?e = []" by simp
  have s: "py_step (coroutine ?e) (inject_t2 ?e) ?W = (Raised (Exn ValueError PNone), [], ?W')"
    by code_simp
  let ?q = "[\<lparr>coroutine = 1, stack = [], val = PNone, exc = []\<rparr>]"
  from toplevel_fault_leaves_run [OF a, where step = py_step and w = ?W and x = "Exn ValueError PNone"
      and cmds = "[]" and w' = ?W' and n = 4 and q = ?q and r = False] s
  have "\<exists>t' new. run_t2 py_step (Suc 4) \<lparr>queue = ?e # ?q, running = False, world = ?W\<rparr>
         = Raises (Exn ValueError PNone) t'
         \<and> \<not> running t' \<and> world t' = ?W' \<and> queue t' = ?q @ new \<and> ([] = ([]::cmd list) \<longrightarrow> new = [])"
    by blast
  then have r: "\<exists>t' new. run_t2 py_step (Suc 4) \<lparr>queue = ?e # ?q, running = False, world = ?W\<rparr>
         = Raises (Exn ValueError PNone) t'
         \<and> \<not> running t' \<and> world t' = ?W' \<and> queue t' = ?q @ new \<and> new = []"
    by simp
  from s have s': "py_step 0 (inject_t2 ?e) ?W = (Raised (Exn ValueError PNone), [], ?W')" by simp
  from a s' r show ?thesis by (intro conjI)
qed

subsection \<open>C2: a sub-task that is exhausted\<close>

text \<open>
  Claim C2 says that when a task is exhausted while it has a parent, the parent is
  scheduled again with a void value, a plain resume that carries no exception. It is not:
  both files pass \<open>*sys.exc_info()\<close> to \<open>schedule\<close>. Below, \<open>nonblocking_read\<close> was
  scheduled on \<open>trampolinepfp.py\<close>'s scheduler with a parent and returns \<open>b"ping"\<close>; the
  one resume queued for the parent holds the \<open>StopIteration\<close> instance in \<open>exc\<close>, so
  it will call \<open>coroutine.throw\<close>, not \<open>coroutine.send\<close>.
\<close>

theorem exhausted_child_does_not_resume_parent_plainly:
  "resume_pfp py_step \<lparr>coroutine = 1, stack = [0], val = PNone, exc = []\<rparr>
     (Trampoline \<lparr>heap = [Created (Echo_pfp (Some 7)), Created (Read_pfp 7 8192)],
                  env = quiet\<lparr>selects := [IsReady], recvs := [Ok ''ping'']\<rparr>\<rparr>)
    = Inr \<lparr>queue = [\<lparr>coroutine = 0, stack = [], val = PExcType StopIteration,
                      exc = [PExcInst StopIteration (PBytes ''ping''), PTraceback]\<rparr>],
           running = False,
           world = \<lparr>heap = [Created (Echo_pfp (Some 7)), Finished], env = quiet\<rparr>\<rparr>
   \<and> inject_pfp \<lparr>coroutine = 0, stack = [], val = PExcType StopIteration,
                  exc = [PExcInst StopIteration (PBytes ''ping''), PTraceback]\<rparr>
      = Throw [PExcInst StopIteration (PBytes ''ping''), PTraceback]"
  by code_simp

text \<open>
  Claim C2 as amended: when a task is exhausted (its \<open>send\<close> or \<open>throw\<close> raises
  \<open>StopIteration\<close>) and its parent chain is not empty, the scheduler queues a resume of
  the top parent with the rest of the chain, so exactly one frame is popped, and that
  resume carries the \<open>StopIteration\<close>: the type as \<open>val\<close>, the instance (with the
  returned value) and the traceback as \<open>exc\<close>; it will throw into the parent. In
  \<open>trampolinepfp.py\<close> that is the only resume queued; in \<open>treamp2.py\<close> it is the first
  one queued by the step.
\<close>

theorem exhausted_child_throws_into_parent:
  assumes "stack e = p # ps"
  shows "(step (coroutine e) (inject_pfp e) (world t) = (Raised (Exn StopIteration v), cmds, w') \<longrightarrow>
            resume_pfp step e t
              = Inr (schedule p ps (PExcType StopIteration) [PExcInst StopIteration v, PTraceback]
                       (perform cmds (t\<lparr>world := w'\<rparr>))))
       \<and> (step (coroutine e) (inject_t2 e) (world t) = (Raised (Exn StopIteration v), cmds, w') \<longrightarrow>
            (\<exists>t'' rest. resume_t2 step e t = Inr t''
               \<and> queue t'' = queue (perform cmds (t\<lparr>world := w'\<rparr>))
                    @ \<lparr>coroutine = p, stack = ps, val = PExcType StopIteration,
                        exc = [PExcInst StopIteration v, PTraceback]\<rparr> # rest))
       \<and> inject_pfp \<lparr>coroutine = p, stack = ps, val = PExcType StopIteration,
                      exc = [PExcInst StopIteration v, PTraceback]\<rparr>
           = Throw [PExcInst StopIteration v, PTraceback]
       \<and> inject_t2 \<lparr>coroutine = p, stack = ps, val = PExcType StopIteration,
                     exc = [PExcInst StopIteration v, PTraceback]\<rparr>
           = Throw [PExcType StopIteration, PExcInst StopIteration v, PTraceback]"
  using resume_pfp_exhausted [OF assms, of step t v cmds w']
    resume_t2_raised [OF assms, of step t StopIteration v cmds w']
  by (simp add: inject_pfp_def inject_t2_def)

theorem exhausted_child_throws_into_parent_witness:
  "stack \<lparr>coroutine = 1, stack = [0], val = PNone, exc = []\<rparr> = [0]
   \<and> py_step 1 (inject_t2 \<lparr>coroutine = 1, stack = [0], val = PNone, exc = []\<rparr>)
        \<lparr>heap = [Suspended (EchoAwaitRead_t2 7), Created (Read_t2 7 8192)],
         env = quiet\<lparr>selects := [IsReady], recvs := [Ok ''pong'']\<rparr>\<rparr>
      = (Raised (Exn StopIteration (PBytes ''pong'')), [],
         \<lparr>heap = [Suspended (EchoAwaitRead_t2 7), Finished], env = quiet\<rparr>)
   \<and> (\<exists>t'' rest.
         resume_t2 py_step \<lparr>coroutine = 1, stack = [0], val = PNone, exc = []\<rparr>
           (Trampoline \<lparr>heap = [Suspended (EchoAwaitRead_t2 7), Created (Read_t2 7 8192)],
                        env = quiet\<lparr>selects := [IsReady], recvs := [Ok ''pong'']\<rparr>\<rparr>) = Inr t''
         \<and> queue t'' = [] @ \<lparr>coroutine = 0, stack = [], val = PExcType StopIteration,
                              exc = [PExcInst StopIteration (PBytes ''pong''), PTraceback]\<rparr> # rest)"
proof -
  let ?e = "\<lparr>coroutine = 1, stack = [0], val = PNone, exc = []\<rparr>"
  let ?W = "\<lparr>heap = [Suspended (EchoAwaitRead_t2 7), Created (Read_t2 7 8192)],
         env = quiet\<lparr>selects := [IsReady], recvs := [Ok ''pong'']\<rparr>\<rparr>"
  let ?W' = "\<lparr>heap = [Suspended (EchoAwaitRead_t2 7), Finished], env = quiet\<rparr>"
  have a: "stack ?e = [0]" by simp
  have s: "py_step (coroutine ?e) (inject_t2 ?e) (world (Trampoline ?W))
             = (Raised (Exn StopIteration (PBytes ''pong'')), [], ?W')"
    by code_simp
  from exhausted_child_throws_into_parent [OF a, where step = py_step and t = "Trampoline ?W"
      and v = "PBytes ''pong''" and cmds = "[]" and w' = ?W'] s
  have "\<exists>t'' rest. resume_t2 py_step ?e (Trampoline ?W) = Inr t''
          \<and> queue t'' = queue (perform [] ((Trampoline ?W)\<lparr>world := ?W'\<rparr>))
               @ \<lparr>coroutine = 0, stack = [], val = PExcType StopIteration,
                   exc = [PExcInst StopIteration (PBytes ''pong''), PTraceback]\<rparr> # rest"
    by blast
  then have r: "\<exists>t'' rest. resume_t2 py_step ?e (Trampoline ?W) = Inr t''
          \<and> queue t'' = [] @ \<lparr>coroutine = 0, stack = [], val = PExcType StopIteration,
                   exc = [PExcInst StopIteration (PBytes ''pong''), PTraceback]\<rparr> # rest"
    by (simp add: Trampoline_def)
  from s have s': "py_step 1 (inject_t2 ?e) ?W
             = (Raised (Exn StopIteration (PBytes ''pong'')), [], ?W')"
    by (simp add: Trampoline_def)
  from a s' r show ?thesis by (intro conjI)
qed

subsection \<open>C3: delegation to a sub-task\<close>

text \<open>
  Claim C3 says that a sub-task is scheduled with the yielding task pushed on its parent
  chain and that, when it finishes or faults, its final value or its fault is delivered
  to exactly that parent. Evaluated with \<open>nonblocking_read\<close> scheduled as the sub-task
  of an \<open>echo_handler\<close>. The fault: \<open>resume\<close> of \<open>trampolinepfp.py\<close> catches
  \<open>StopIteration\<close> only, so the \<open>ConnectionLost\<close> of the read leaves the closure and
  \<open>run\<close>, and nothing is queued for the parent; \<open>resume\<close> of \<open>treamp2.py\<close>, with its
  bare \<open>except\<close>, queues the parent with the exception, and then a second time with
  \<open>val\<close>, which is still \<open>None\<close>. The final value: \<open>trampolinepfp.py\<close> queues
  \<open>throw(instance, traceback)\<close> for the parent, a \<open>TypeError\<close> of that call, which
  leaves \<open>run\<close>; in \<open>treamp2.py\<close> the \<open>StopIteration\<close> that carries the bytes is thrown
  into \<open>echo_handler\<close> at its \<open>yield\<close>, leaves it as a \<open>RuntimeError\<close>, and that leaves
  \<open>run\<close>. All of it for any number of iterations the loop is given beyond the three it
  needs.
\<close>

theorem subtask_outcome_does_not_reach_parent:
  "resume_pfp py_step \<lparr>coroutine = 1, stack = [0], val = PNone, exc = []\<rparr>
     (Trampoline \<lparr>heap = [Created (Echo_pfp (Some 7)), Created (Read_pfp 7 8192)],
                  env = quiet\<lparr>selects := [IsReady], recvs := [Ok []]\<rparr>\<rparr>)
    = Inl (Exn ConnectionLost PNone,
           \<lparr>queue = [], running = False,
            world = \<lparr>heap = [Created (Echo_pfp (Some 7)), Finished], env = quiet\<rparr>\<rparr>)
   \<and> run_pfp py_step (3 + k)
       \<lparr>queue = [\<lparr>coroutine = 1, stack = [0], val = PNone, exc = []\<rparr>], running = False,
        world = \<lparr>heap = [Created (Echo_pfp (Some 7)), Created (Read_pfp 7 8192)],
                 env = quiet\<lparr>selects := [IsReady], recvs := [Ok []]\<rparr>\<rparr>\<rparr>
    = Raises (Exn ConnectionLost PNone)
        \<lparr>queue = [], running = False,
         world = \<lparr>heap = [Created (Echo_pfp (Some 7)), Finished], env = quiet\<rparr>\<rparr>
   \<and> resume_t2 py_step \<lparr>coroutine = 1, stack = [0], val = PNone, exc = []\<rparr>
       (Trampoline \<lparr>heap = [Suspended (EchoAwaitRead_t2 7), Created (Read_t2 7 8192)],
                    env = quiet\<lparr>selects := [IsReady], recvs := [Ok []]\<rparr>\<rparr>)
    = Inr \<lparr>queue = [\<lparr>coroutine = 0, stack = [], val = PExcType ConnectionLost,
                      exc = [PExcInst ConnectionLost PNone, PTraceback]\<rparr>,
                    \<lparr>coroutine = 0, stack = [], val = PNone, exc = []\<rparr>],
           running = False,
           world = \<lparr>heap = [Suspended (EchoAwaitRead_t2 7), Finished], env = quiet\<rparr>\<rparr>
   \<and> run_pfp py_step (3 + k)
       \<lparr>queue = [\<lparr>coroutine = 1, stack = [0], val = PNone, exc = []\<rparr>], running = False,
        world = \<lparr>heap = [Created (Echo_pfp (Some 7)), Created (Read_pfp 7 8192)],
                 env = quiet\<lparr>selects := [IsReady], recvs := [Ok ''ping'']\<rparr>\<rparr>\<rparr>
    = Raises (Exn TypeError PNone)
        \<lparr>queue = [], running = False,
         world = \<lparr>heap = [Created (Echo_pfp (Some 7)), Finished], env = quiet\<rparr>\<rparr>
   \<and> run_t2 py_step (3 + k)
       (add 0 (Trampoline \<lparr>heap = [Created (Echo_t2 (Some 7))],
                           env = quiet\<lparr>selects := [IsReady], recvs := [Ok ''ping'']\<rparr>\<rparr>))
    = Raises (Exn RuntimeError PNone)
        \<lparr>queue = [\<lparr>coroutine = 0, stack = [], val = PNone, exc = []\<rparr>], running = False,
         world = \<lparr>heap = [Finished, Finished], env = quiet\<rparr>\<rparr>"
proof -
  have a: "resume_pfp py_step \<lparr>coroutine = 1, stack = [0], val = PNone, exc = []\<rparr>
     (Trampoline \<lparr>heap = [Created (Echo_pfp (Some 7)), Created (Read_pfp 7 8192)],
                  env = quiet\<lparr>selects := [IsReady], recvs := [Ok []]\<rparr>\<rparr>)
    = Inl (Exn ConnectionLost PNone,
           \<lparr>queue = [], running = False,
            world = \<lparr>heap = [Created (Echo_pfp (Some 7)), Finished], env = quiet\<rparr>\<rparr>)"
    by code_simp
  have "run_pfp py_step 3
       \<lparr>queue = [\<lparr>coroutine = 1, stack = [0], val = PNone, exc = []\<rparr>], running = False,
        world = \<lparr>heap = [Created (Echo_pfp (Some 7)), Created (Read_pfp 7 8192)],
                 env = quiet\<lparr>selects := [IsReady], recvs := [Ok []]\<rparr>\<rparr>\<rparr>
    = Raises (Exn ConnectionLost PNone)
        \<lparr>queue = [], running = False,
         world = \<lparr>heap = [Created (Echo_pfp (Some 7)), Finished], env = quiet\<rparr>\<rparr>"
    by code_simp
  then have b: "run_pfp py_step (3 + k)
       \<lparr>queue = [\<lparr>coroutine = 1, stack = [0], val = PNone, exc = []\<rparr>], running = False,
        world = \<lparr>heap = [Created (Echo_pfp (Some 7)), Created (Read_pfp 7 8192)],
                 env = quiet\<lparr>selects := [IsReady], recvs := [Ok []]\<rparr>\<rparr>\<rparr>
    = Raises (Exn ConnectionLost PNone)
        \<lparr>queue = [], running = False,
         world = \<lparr>heap = [Created (Echo_pfp (Some 7)), Finished], env = quiet\<rparr>\<rparr>"
    unfolding run_pfp_def by (rule run_more_fuel(1))
  have c: "resume_t2 py_step \<lparr>coroutine = 1, stack = [0], val = PNone, exc = []\<rparr>
       (Trampoline \<lparr>heap = [Suspended (EchoAwaitRead_t2 7), Created (Read_t2 7 8192)],
                    env = quiet\<lparr>selects := [IsReady], recvs := [Ok []]\<rparr>\<rparr>)
    = Inr \<lparr>queue = [\<lparr>coroutine = 0, stack = [], val = PExcType ConnectionLost,
                      exc = [PExcInst ConnectionLost PNone, PTraceback]\<rparr>,
                    \<lparr>coroutine = 0, stack = [], val = PNone, exc = []\<rparr>],
           running = False,
           world = \<lparr>heap = [Suspended (EchoAwaitRead_t2 7), Finished], env = quiet\<rparr>\<rparr>"
    by code_simp
  have "run_pfp py_step 3
       \<lparr>queue = [\<lparr>coroutine = 1, stack = [0], val = PNone, exc = []\<rparr>], running = False,
        world = \<lparr>heap = [Created (Echo_pfp (Some 7)), Created (Read_pfp 7 8192)],
                 env = quiet\<lparr>selects := [IsReady], recvs := [Ok ''ping'']\<rparr>\<rparr>\<rparr>
    = Raises (Exn TypeError PNone)
        \<lparr>queue = [], running = False,
         world = \<lparr>heap = [Created (Echo_pfp (Some 7)), Finished], env = quiet\<rparr>\<rparr>"
    by code_simp
  then have d: "run_pfp py_step (3 + k)
       \<lparr>queue = [\<lparr>coroutine = 1, stack = [0], val = PNone, exc = []\<rparr>], running = False,
        world = \<lparr>heap = [Created (Echo_pfp (Some 7)), Created (Read_pfp 7 8192)],
                 env = quiet\<lparr>selects := [IsReady], recvs := [Ok ''ping'']\<rparr>\<rparr>\<rparr>
    = Raises (Exn TypeError PNone)
        \<lparr>queue = [], running = False,
         world = \<lparr>heap = [Created (Echo_pfp (Some 7)), Finished], env = quiet\<rparr>\<rparr>"
    unfolding run_pfp_def by (rule run_more_fuel(1))
  have "run_t2 py_step 3
       (add 0 (Trampoline \<lparr>heap = [Created (Echo_t2 (Some 7))],
                           env = quiet\<lparr>selects := [IsReady], recvs := [Ok ''ping'']\<rparr>\<rparr>))
    = Raises (Exn RuntimeError PNone)
        \<lparr>queue = [\<lparr>coroutine = 0, stack = [], val = PNone, exc = []\<rparr>], running = False,
         world = \<lparr>heap = [Finished, Finished], env = quiet\<rparr>\<rparr>"
    by code_simp
  then have e: "run_t2 py_step (3 + k)
       (add 0 (Trampoline \<lparr>heap = [Created (Echo_t2 (Some 7))],
                           env = quiet\<lparr>selects := [IsReady], recvs := [Ok ''ping'']\<rparr>\<rparr>))
    = Raises (Exn RuntimeError PNone)
        \<lparr>queue = [\<lparr>coroutine = 0, stack = [], val = PNone, exc = []\<rparr>], running = False,
         world = \<lparr>heap = [Finished, Finished], env = quiet\<rparr>\<rparr>"
    unfolding run_t2_def by (rule run_more_fuel(1))
  from a b c d e show ?thesis by (intro conjI)
qed

subsection \<open>C4: ConnectionLost from the primitives\<close>

text \<open>
  Claim C4 says that the three primitives raise \<open>ConnectionLost\<close> on an empty \<open>recv\<close>
  and on an OS-level socket fault. Evaluated: the primitives of \<open>trampolinepfp.py\<close> have
  no \<open>except\<close> clause, and a fault of \<open>recv\<close>, \<open>send\<close>, \<open>accept\<close> or \<open>select\<close> leaves
  them as the \<open>OSError\<close> it is. The primitives of \<open>treamp2.py\<close> raise \<open>ConnectionLost\<close>
  on the same inputs; there only the \<open>ValueError\<close> of \<open>select\<close> on a closed descriptor
  passes. An empty \<open>recv\<close> raises \<open>ConnectionLost\<close> in both files. With two handlers
  added to the scheduler of \<open>trampolinepfp.py\<close> and a \<open>recv\<close> that fails in the first
  one's read, \<open>echo_handler\<close> (\<open>except ConnectionLost\<close>) does not catch the \<open>OSError\<close>
  and \<open>run\<close> ends with it; the second handler is still queued and has never run.
\<close>

theorem os_fault_is_not_ConnectionLost:
  "py_step 0 (Send PNone)
     \<lparr>heap = [Created (Read_pfp 7 8192)], env = quiet\<lparr>selects := [IsReady], recvs := [IOFault]\<rparr>\<rparr>
    = (Raised (Exn OSError PNone), [], \<lparr>heap = [Finished], env = quiet\<rparr>)
   \<and> py_step 0 (Send PNone)
     \<lparr>heap = [Created (Write_pfp 7 ''ping'')], env = quiet\<lparr>selects := [IsReady], sends := [IOFault]\<rparr>\<rparr>
    = (Raised (Exn OSError PNone), [], \<lparr>heap = [Finished], env = quiet\<rparr>)
   \<and> py_step 0 (Send PNone)
     \<lparr>heap = [Created (Accept_pfp 3 False)], env = quiet\<lparr>selects := [IsReady], accepts := [IOFault]\<rparr>\<rparr>
    = (Raised (Exn OSError PNone), [], \<lparr>heap = [Finished], env = quiet\<rparr>)
   \<and> py_step 0 (Send PNone)
     \<lparr>heap = [Created (Read_pfp 7 8192)], env = quiet\<lparr>selects := [SelFault]\<rparr>\<rparr>
    = (Raised (Exn OSError PNone), [], \<lparr>heap = [Finished], env = quiet\<rparr>)
   \<and> py_step 0 (Send PNone)
     \<lparr>heap = [Created (Read_t2 7 8192)], env = quiet\<lparr>selects := [IsReady], recvs := [IOFault]\<rparr>\<rparr>
    = (Raised (Exn ConnectionLost PNone), [], \<lparr>heap = [Finished], env = quiet\<rparr>)
   \<and> py_step 0 (Send PNone)
     \<lparr>heap = [Created (Write_t2 7 ''ping'')], env = quiet\<lparr>selects := [IsReady], sends := [IOFault]\<rparr>\<rparr>
    = (Raised (Exn ConnectionLost PNone), [], \<lparr>heap = [Finished], env = quiet\<rparr>)
   \<and> py_step 0 (Send PNone)
     \<lparr>heap = [Created (Accept_t2 3 False)], env = quiet\<lparr>selects := [IsReady], accepts := [IOFault]\<rparr>\<rparr>
    = (Raised (Exn ConnectionLost PNone), [], \<lparr>heap = [Finished], env = quiet\<rparr>)
   \<and> py_step 0 (Send PNone)
     \<lparr>heap = [Created (Read_t2 7 8192)], env = quiet\<lparr>selects := [SelFault]\<rparr>\<rparr>
    = (Raised (Exn ConnectionLost PNone), [], \<lparr>heap = [Finished], env = quiet\<rparr>)
   \<and> py_step 0 (Send PNone)
     \<lparr>heap = [Created (Read_t2 7 8192)], env = quiet\<lparr>selects := [SelClosed]\<rparr>\<rparr>
    = (Raised (Exn ValueError PNone), [], \<lparr>heap = [Finished], env = quiet\<rparr>)
   \<and> py_step 0 (Send PNone)
     \<lparr>heap = [Created (Read_pfp 7 8192)], env = quiet\<lparr>selects := [IsReady], recvs := [Ok []]\<rparr>\<rparr>
    = (Raised (Exn ConnectionLost PNone), [], \<lparr>heap = [Finished], env = quiet\<rparr>)
   \<and> py_step 0 (Send PNone)
     \<lparr>heap = [Created (Read_t2 7 8192)], env = quiet\<lparr>selects := [IsReady], recvs := [Ok []]\<rparr>\<rparr>
    = (Raised (Exn ConnectionLost PNone), [], \<lparr>heap = [Finished], env = quiet\<rparr>)
   \<and> run_pfp py_step (1 + k)
       (add 1 (add 0 (Trampoline
          \<lparr>heap = [Created (Echo_pfp (Some 7)), Created (Echo_pfp (Some 8))],
           env = quiet\<lparr>selects := [IsReady], recvs := [IOFault]\<rparr>\<rparr>)))
    = Raises (Exn OSError PNone)
        \<lparr>queue = [\<lparr>coroutine = 1, stack = [], val = PNone, exc = []\<rparr>], running = False,
         world = \<lparr>heap = [Finished, Created (Echo_pfp (Some 8))], env = quiet\<rparr>\<rparr>"
proof -
  have r: "run_pfp py_step 1
       (add 1 (add 0 (Trampoline
          \<lparr>heap = [Created (Echo_pfp (Some 7)), Created (Echo_pfp (Some 8))],
           env = quiet\<lparr>selects := [IsReady], recvs := [IOFault]\<rparr>\<rparr>)))
    = Raises (Exn OSError PNone)
        \<lparr>queue = [\<lparr>coroutine = 1, stack = [], val = PNone, exc = []\<rparr>], running = False,
         world = \<lparr>heap = [Finished, Created (Echo_pfp (Some 8))], env = quiet\<rparr>\<rparr>"
    by code_simp
  have 1: "py_step 0 (Send PNone)
     \<lparr>heap = [Created (Read_pfp 7 8192)], env = quiet\<lparr>selects := [IsReady], recvs := [IOFault]\<rparr>\<rparr>
    = (Raised (Exn OSError PNone), [], \<lparr>heap = [Finished], env = quiet\<rparr>)" by code_simp
  have 2: "py_step 0 (Send PNone)
     \<lparr>heap = [Created (Write_pfp 7 ''ping'')], env = quiet\<lparr>selects := [IsReady], sends := [IOFault]\<rparr>\<rparr>
    = (Raised (Exn OSError PNone), [], \<lparr>heap = [Finished], env = quiet\<rparr>)" by code_simp
  have 3: "py_step 0 (Send PNone)
     \<lparr>heap = [Created (Accept_pfp 3 False)], env = quiet\<lparr>selects := [IsReady], accepts := [IOFault]\<rparr>\<rparr>
    = (Raised (Exn OSError PNone), [], \<lparr>heap = [Finished], env = quiet\<rparr>)" by code_simp
  have 4: "py_step 0 (Send PNone)
     \<lparr>heap = [Created (Read_pfp 7 8192)], env = quiet\<lparr>selects := [SelFault]\<rparr>\<rparr>
    = (Raised (Exn OSError PNone), [], \<lparr>heap = [Finished], env = quiet\<rparr>)" by code_simp
  have 5: "py_step 0 (Send PNone)
     \<lparr>heap = [Created (Read_t2 7 8192)], env = quiet\<lparr>selects := [IsReady], recvs := [IOFault]\<rparr>\<rparr>
    = (Raised (Exn ConnectionLost PNone), [], \<lparr>heap = [Finished], env = quiet\<rparr>)" by code_simp
  have 6: "py_step 0 (Send PNone)
     \<lparr>heap = [Created (Write_t2 7 ''ping'')], env = quiet\<lparr>selects := [IsReady], sends := [IOFault]\<rparr>\<rparr>
    = (Raised (Exn ConnectionLost PNone), [], \<lparr>heap = [Finished], env = quiet\<rparr>)" by code_simp
  have 7: "py_step 0 (Send PNone)
     \<lparr>heap = [Created (Accept_t2 3 False)], env = quiet\<lparr>selects := [IsReady], accepts := [IOFault]\<rparr>\<rparr>
    = (Raised (Exn ConnectionLost PNone), [], \<lparr>heap = [Finished], env = quiet\<rparr>)" by code_simp
  have 8: "py_step 0 (Send PNone)
     \<lparr>heap = [Created (Read_t2 7 8192)], env = quiet\<lparr>selects := [SelFault]\<rparr>\<rparr>
    = (Raised (Exn ConnectionLost PNone), [], \<lparr>heap = [Finished], env = quiet\<rparr>)" by code_simp
  have 9: "py_step 0 (Send PNone)
     \<lparr>heap = [Created (Read_t2 7 8192)], env = quiet\<lparr>selects := [SelClosed]\<rparr>\<rparr>
    = (Raised (Exn ValueError PNone), [], \<lparr>heap = [Finished], env = quiet\<rparr>)" by code_simp
  have 10: "py_step 0 (Send PNone)
     \<lparr>heap = [Created (Read_pfp 7 8192)], env = quiet\<lparr>selects := [IsReady], recvs := [Ok []]\<rparr>\<rparr>
    = (Raised (Exn ConnectionLost PNone), [], \<lparr>heap = [Finished], env = quiet\<rparr>)" by code_simp
  have 11: "py_step 0 (Send PNone)
     \<lparr>heap = [Created (Read_t2 7 8192)], env = quiet\<lparr>selects := [IsReady], recvs := [Ok []]\<rparr>\<rparr>
    = (Raised (Exn ConnectionLost PNone), [], \<lparr>heap = [Finished], env = quiet\<rparr>)" by code_simp
  from r have 12: "run_pfp py_step (1 + k)
       (add 1 (add 0 (Trampoline
          \<lparr>heap = [Created (Echo_pfp (Some 7)), Created (Echo_pfp (Some 8))],
           env = quiet\<lparr>selects := [IsReady], recvs := [IOFault]\<rparr>\<rparr>)))
    = Raises (Exn OSError PNone)
        \<lparr>queue = [\<lparr>coroutine = 1, stack = [], val = PNone, exc = []\<rparr>], running = False,
         world = \<lparr>heap = [Finished, Created (Echo_pfp (Some 8))], env = quiet\<rparr>\<rparr>"
    unfolding run_pfp_def by (rule run_more_fuel(1))
  from 1 2 3 4 5 6 7 8 9 10 11 12 show ?thesis by (intro conjI)
qed

subsection \<open>C5: nonblocking_write after a partial send\<close>

text \<open>
  Claim C5 says that \<open>nonblocking_write\<close> completes only once every byte has been
  accepted, and that each partial send is retried with the unsent remainder. Evaluated
  with a \<open>send\<close> that takes 2 of the 4 bytes of \<open>b"ping"\<close>: the generator yields \<open>None\<close>
  after the partial send and no scheduler resumes it again, so \<open>b"ng"\<close> is never sent.
  In \<open>trampolinepfp.py\<close>, inside a top-level \<open>echo_handler\<close> (through \<open>yield from\<close>) or
  added on its own, and in \<open>treamp2.py\<close> added on its own, its bare yield is dropped and
  \<open>run\<close> only sleeps, for any number of iterations. As the sub-task that
  \<open>echo_handler\<close> of \<open>treamp2.py\<close> yields, its \<open>None\<close> is sent to the handler as if the
  write were done; the handler goes on to its next read, whose \<open>None\<close> ends it with an
  \<open>AttributeError\<close> that leaves \<open>run\<close>, and the write still stands at \<open>b"ng"\<close>. Were
  the generator resumed once more with the socket writable, it would send exactly
  \<open>b"ng"\<close>.
\<close>

theorem partial_send_is_never_retried:
  "run_pfp py_step (Suc (Suc n))
     (add 0 (Trampoline \<lparr>heap = [Created (Echo_pfp (Some 7))],
                         env = quiet\<lparr>selects := [IsReady, IsReady], recvs := [Ok ''ping''],
                                      sends := [Ok 2]\<rparr>\<rparr>))
    = Spins \<lparr>queue = [], running = True,
             world = \<lparr>heap = [Suspended (EchoWriting_pfp 7 ''ng'')],
                      env = quiet\<lparr>sent_log := [(7, ''ping'', 2)]\<rparr>\<rparr>\<rparr>
   \<and> run_pfp py_step (Suc (Suc n))
     (add 0 (Trampoline \<lparr>heap = [Created (Write_pfp 7 ''ping'')],
                         env = quiet\<lparr>selects := [IsReady], sends := [Ok 2]\<rparr>\<rparr>))
    = Spins \<lparr>queue = [], running = True,
             world = \<lparr>heap = [Suspended (Write_pfp 7 ''ng'')],
                      env = quiet\<lparr>sent_log := [(7, ''ping'', 2)]\<rparr>\<rparr>\<rparr>
   \<and> run_t2 py_step (Suc (Suc n))
     (add 0 (Trampoline \<lparr>heap = [Created (Write_t2 7 ''ping'')],
                         env = quiet\<lparr>selects := [IsReady], sends := [Ok 2]\<rparr>\<rparr>))
    = Spins \<lparr>queue = [], running = True,
             world = \<lparr>heap = [Suspended (Write_t2 7 ''ng'')],
                      env = quiet\<lparr>sent_log := [(7, ''ping'', 2)]\<rparr>\<rparr>\<rparr>
   \<and> run_t2 py_step (4 + k)
       \<lparr>queue = [\<lparr>coroutine = 1, stack = [0], val = PNone, exc = []\<rparr>], running = False,
        world = \<lparr>heap = [Suspended (EchoAwaitWrite_t2 7 ''ping''), Created (Write_t2 7 ''ping'')],
                 env = quiet\<lparr>selects := [IsReady], sends := [Ok 2]\<rparr>\<rparr>\<rparr>
    = Raises (Exn AttributeError PNone)
        \<lparr>queue = [], running = False,
         world = \<lparr>heap = [Finished, Suspended (Write_t2 7 ''ng''), Suspended (Read_t2 7 8192)],
                  env = quiet\<lparr>sent_log := [(7, ''ping'', 2)]\<rparr>\<rparr>\<rparr>
   \<and> py_step 0 (Send PNone)
       \<lparr>heap = [Suspended (Write_t2 7 ''ng'')],
        env = quiet\<lparr>selects := [IsReady], sent_log := [(7, ''ping'', 2)]\<rparr>\<rparr>
    = (Yielded PNone, [],
       \<lparr>heap = [Suspended (Write_t2 7 [])],
        env = quiet\<lparr>sent_log := [(7, ''ping'', 2), (7, ''ng'', 2)]\<rparr>\<rparr>)"
proof -
  let ?e = "\<lparr>coroutine = 0, stack = [], val = PNone, exc = []\<rparr>"
  let ?L = "quiet\<lparr>sent_log := [(7, ''ping'', 2)]\<rparr>"
  have p1: "resume_pfp py_step ?e
       \<lparr>queue = [], running = True,
        world = \<lparr>heap = [Created (Echo_pfp (Some 7))],
                 env = quiet\<lparr>selects := [IsReady, IsReady], recvs := [Ok ''ping''],
                              sends := [Ok 2]\<rparr>\<rparr>\<rparr>
     = Inr \<lparr>queue = [], running = True,
            world = \<lparr>heap = [Suspended (EchoWriting_pfp 7 ''ng'')], env = ?L\<rparr>\<rparr>"
    by code_simp
  have p2: "resume_pfp py_step ?e
       \<lparr>queue = [], running = True,
        world = \<lparr>heap = [Created (Write_pfp 7 ''ping'')],
                 env = quiet\<lparr>selects := [IsReady], sends := [Ok 2]\<rparr>\<rparr>\<rparr>
     = Inr \<lparr>queue = [], running = True,
            world = \<lparr>heap = [Suspended (Write_pfp 7 ''ng'')], env = ?L\<rparr>\<rparr>"
    by code_simp
  have p3: "resume_t2 py_step ?e
       \<lparr>queue = [], running = True,
        world = \<lparr>heap = [Created (Write_t2 7 ''ping'')],
                 env = quiet\<lparr>selects := [IsReady], sends := [Ok 2]\<rparr>\<rparr>\<rparr>
     = Inr \<lparr>queue = [], running = True,
            world = \<lparr>heap = [Suspended (Write_t2 7 ''ng'')], env = ?L\<rparr>\<rparr>"
    by code_simp
  have r1: "run_pfp py_step (Suc (Suc n))
     (add 0 (Trampoline \<lparr>heap = [Created (Echo_pfp (Some 7))],
                         env = quiet\<lparr>selects := [IsReady, IsReady], recvs := [Ok ''ping''],
                                      sends := [Ok 2]\<rparr>\<rparr>))
    = Spins \<lparr>queue = [], running = True,
             world = \<lparr>heap = [Suspended (EchoWriting_pfp 7 ''ng'')], env = ?L\<rparr>\<rparr>"
    using p1 by (simp add: run_pfp_def run_def add_def schedule_def Trampoline_def run_loop_idle)
  have r2: "run_pfp py_step (Suc (Suc n))
     (add 0 (Trampoline \<lparr>heap = [Created (Write_pfp 7 ''ping'')],
                         env = quiet\<lparr>selects := [IsReady], sends := [Ok 2]\<rparr>\<rparr>))
    = Spins \<lparr>queue = [], running = True,
             world = \<lparr>heap = [Suspended (Write_pfp 7 ''ng'')], env = ?L\<rparr>\<rparr>"
    using p2 by (simp add: run_pfp_def run_def add_def schedule_def Trampoline_def run_loop_idle)
  have r3: "run_t2 py_step (Suc (Suc n))
     (add 0 (Trampoline \<lparr>heap = [Created (Write_t2 7 ''ping'')],
                         env = quiet\<lparr>selects := [IsReady], sends := [Ok 2]\<rparr>\<rparr>))
    = Spins \<lparr>queue = [], running = True,
             world = \<lparr>heap = [Suspended (Write_t2 7 ''ng'')], env = ?L\<rparr>\<rparr>"
    using p3 by (simp add: run_t2_def run_def add_def schedule_def Trampoline_def run_loop_idle)
  have "run_t2 py_step 4
       \<lparr>queue = [\<lparr>coroutine = 1, stack = [0], val = PNone, exc = []\<rparr>], running = False,
        world = \<lparr>heap = [Suspended (EchoAwaitWrite_t2 7 ''ping''), Created (Write_t2 7 ''ping'')],
                 env = quiet\<lparr>selects := [IsReady], sends := [Ok 2]\<rparr>\<rparr>\<rparr>
    = Raises (Exn AttributeError PNone)
        \<lparr>queue = [], running = False,
         world = \<lparr>heap = [Finished, Suspended (Write_t2 7 ''ng''), Suspended (Read_t2 7 8192)],
                  env = ?L\<rparr>\<rparr>"
    by code_simp
  then have r4: "run_t2 py_step (4 + k)
       \<lparr>queue = [\<lparr>coroutine = 1, stack = [0], val = PNone, exc = []\<rparr>], running = False,
        world = \<lparr>heap = [Suspended (EchoAwaitWrite_t2 7 ''ping''), Created (Write_t2 7 ''ping'')],
                 env = quiet\<lparr>selects := [IsReady], sends := [Ok 2]\<rparr>\<rparr>\<rparr>
    = Raises (Exn AttributeError PNone)
        \<lparr>queue = [], running = False,
         world = \<lparr>heap = [Finished, Suspended (Write_t2 7 ''ng''), Suspended (Read_t2 7 8192)],
                  env = ?L\<rparr>\<rparr>"
    unfolding run_t2_def by (rule run_more_fuel(1))
  have r5: "py_step 0 (Send PNone)
       \<lparr>heap = [Suspended (Write_t2 7 ''ng'')],
        env = quiet\<lparr>selects := [IsReady], sent_log := [(7, ''ping'', 2)]\<rparr>\<rparr>
    = (Yielded PNone, [],
       \<lparr>heap = [Suspended (Write_t2 7 [])],
        env = quiet\<lparr>sent_log := [(7, ''ping'', 2), (7, ''ng'', 2)]\<rparr>\<rparr>)"
    by code_simp
  from r1 r2 r3 r4 r5 show ?thesis by (intro conjI)
qed

subsection \<open>C6: echo_handler and ConnectionLost\<close>

lemma except_ConnectionLost_absorbs: "except_ConnectionLost x \<noteq> BRaise (Exn ConnectionLost v)"
  by (cases x) (simp add: except_ConnectionLost_def)

lemma except_ConnectionLost_returns [simp]:
  "except_ConnectionLost (Exn ConnectionLost v) = BReturn PNone"
  by (simp add: except_ConnectionLost_def)

lemma pep479_ConnectionLost [simp]: "pep479 (Exn ConnectionLost v) = Exn ConnectionLost v"
  by (simp add: pep479_def)

lemma pep479_keeps: "pep479 x = Exn ConnectionLost v \<Longrightarrow> x = Exn ConnectionLost v"
  by (cases x) (auto simp: pep479_def split: if_splits)

lemma echo_pfp_absorbs:
  "fst (echo_read_pfp s E) \<noteq> BRaise (Exn ConnectionLost v)"
  "fst (echo_write_pfp s d E) \<noteq> BRaise (Exn ConnectionLost v)"
proof (induction s E and s d E rule: echo_read_pfp_echo_write_pfp.induct)
  case (1 s E)
  show ?case
    by (subst echo_read_pfp.simps)
       (use 1 in \<open>auto simp: except_ConnectionLost_absorbs split: prod.splits gres.splits\<close>)
next
  case (2 s data E)
  show ?case
    by (subst echo_write_pfp.simps)
       (use 2 in \<open>auto simp: except_ConnectionLost_absorbs split: prod.splits gres.splits\<close>)
qed

lemma body_echo_absorbs:
  assumes "echo_suspended c"
  shows "fst (body c r W) \<noteq> BRaise (Exn ConnectionLost v)"
proof (cases c)
  case (EchoReading_pfp s)
  then show ?thesis using echo_pfp_absorbs(1) [of s "env W" v]
    by (cases r) (auto simp: with_env_def except_ConnectionLost_absorbs split: prod.splits)
next
  case (EchoWriting_pfp s d)
  then show ?thesis using echo_pfp_absorbs(2) [of s d "env W" v]
    by (cases r) (auto simp: with_env_def except_ConnectionLost_absorbs split: prod.splits)
next
  case (EchoAwaitRead_t2 s)
  then show ?thesis
    by (cases r) (auto simp: yield_new_def except_ConnectionLost_absorbs split: pyval.splits)
next
  case (EchoAwaitWrite_t2 s d)
  then show ?thesis
    by (cases r) (auto simp: yield_new_def except_ConnectionLost_absorbs)
qed (use assms in auto)

lemma body_echo_fresh_absorbs:
  assumes "c = Echo_pfp so \<or> c = Echo_t2 so"
  shows "fst (body c r W) \<noteq> BRaise (Exn ConnectionLost v)"
proof (cases so)
  case None
  with assms show ?thesis by auto
next
  case (Some s)
  obtain b E1 where e: "echo_read_pfp s (env W) = (b, E1)" by (cases "echo_read_pfp s (env W)")
  with echo_pfp_absorbs(1) [of s "env W" v] have "b \<noteq> BRaise (Exn ConnectionLost v)" by simp
  with assms Some e show ?thesis
    by (auto simp: with_env_def yield_new_def simp del: echo_read_pfp.simps)
qed

lemma settle_ConnectionLost:
  "fst (settle g r) = Raised (Exn ConnectionLost v) \<Longrightarrow> fst r = BRaise (Exn ConnectionLost v)"
  by (cases r, cases "fst r") (auto simp: settle_def dest: pep479_keeps)

lemma echo_step_absorbs:
  assumes "echo_suspended c" and "lookup W g = Suspended c"
  shows "fst (py_step g i W) \<noteq> Raised (Exn ConnectionLost v)"
proof
  assume a: "fst (py_step g i W) = Raised (Exn ConnectionLost v)"
  have "\<exists>r. fst (settle g (body c r W)) = Raised (Exn ConnectionLost v)"
  proof (cases i)
    case (Send u)
    with a assms(2) show ?thesis by (auto simp: py_step_def gen_send_def)
  next
    case (Throw args)
    with a assms(2) show ?thesis
      by (cases "throw_args args") (auto simp: py_step_def gen_throw_def split: if_splits)
  qed
  then obtain r where "fst (settle g (body c r W)) = Raised (Exn ConnectionLost v)" ..
  from settle_ConnectionLost [OF this] body_echo_absorbs [OF assms(1), of r W v]
  show False by simp
qed

lemma echo_first_step_absorbs:
  assumes "c = Echo_pfp so \<or> c = Echo_t2 so" and "lookup W g = Created c"
  shows "fst (py_step g (Send u) W) \<noteq> Raised (Exn ConnectionLost v)"
proof
  assume a: "fst (py_step g (Send u) W) = Raised (Exn ConnectionLost v)"
  with assms(2) have "fst (settle g (body c (RSend PNone) W)) = Raised (Exn ConnectionLost v)"
    by (auto simp: py_step_def gen_send_def split: if_splits)
  from settle_ConnectionLost [OF this] body_echo_fresh_absorbs [OF assms(1), of "RSend PNone" W v]
  show False by simp
qed

lemma body_echo_thrown:
  assumes "echo_suspended c"
  shows "body c (RThrow (Exn ConnectionLost v)) W = (BReturn PNone, [], W)"
  using assms by (cases c) auto

lemma echo_step_thrown:
  assumes "echo_suspended c" and "lookup W g = Suspended c"
    and "throw_args args = Good (Exn ConnectionLost v)"
  shows "py_step g (Throw args) W
           = (Raised (Exn StopIteration PNone), [], W\<lparr>heap := (heap W)[g := Finished]\<rparr>)"
  using assms body_echo_thrown [OF assms(1), of v W]
  by (simp add: py_step_def gen_throw_def settle_def)

lemma echo_read_pfp_lost:
  assumes "nonblocking_read_pfp s 8192 E = (GRaise (Exn ConnectionLost PNone), E')"
  shows "echo_read_pfp s E = (BReturn PNone, E')"
  by (subst echo_read_pfp.simps) (simp add: assms)

lemma echo_step_read_lost:
  assumes "lookup W g = Suspended (EchoReading_pfp s)
           \<or> (lookup W g = Created (Echo_pfp (Some s)) \<and> u = PNone)"
    and "nonblocking_read_pfp s 8192 (env W) = (GRaise (Exn ConnectionLost PNone), E')"
  shows "py_step g (Send u) W
           = (Raised (Exn StopIteration PNone), [], W\<lparr>env := E', heap := (heap W)[g := Finished]\<rparr>)"
  using assms(1) echo_read_pfp_lost [OF assms(2)]
  by (auto simp: py_step_def gen_send_def settle_def with_env_def)

lemma throw_args_exc_info:
  "throw_args [PExcType ConnectionLost, PExcInst ConnectionLost v, PTraceback]
     = Good (Exn ConnectionLost v)"
  by (simp add: throw_args_def throw_value_def is_subclass_def)

lemma run_pfp_handler_ends:
  assumes "py_step g (Send u) W = (Raised (Exn StopIteration PNone), [], W')"
  shows "run_pfp py_step (Suc n)
           \<lparr>queue = \<lparr>coroutine = g, stack = [], val = u, exc = []\<rparr> # q, running = r, world = W\<rparr>
         = Raises (Exn StopIteration PNone) \<lparr>queue = q, running = False, world = W'\<rparr>"
proof -
  let ?e = "\<lparr>coroutine = g, stack = [], val = u, exc = []\<rparr>"
  let ?t = "\<lparr>queue = q, running = True, world = W\<rparr>"
  have "resume_pfp py_step ?e ?t = Inl (Exn StopIteration PNone, perform [] (?t\<lparr>world := W'\<rparr>))"
    using assms
    by (intro resume_pfp_toplevel_raise) (simp_all add: inject_pfp_def)
  then show ?thesis by (simp add: run_pfp_def run_def)
qed

lemma run_t2_handler_ends:
  assumes "py_step g (Throw (ty # ex # rest)) W = (Raised (Exn StopIteration PNone), [], W')"
  shows "run_t2 py_step (Suc n)
           \<lparr>queue = \<lparr>coroutine = g, stack = [], val = ty, exc = ex # rest\<rparr> # q, running = r, world = W\<rparr>
         = Raises (Exn StopIteration PNone) \<lparr>queue = q, running = False, world = W'\<rparr>"
proof -
  let ?e = "\<lparr>coroutine = g, stack = [], val = ty, exc = ex # rest\<rparr>"
  let ?t = "\<lparr>queue = q, running = True, world = W\<rparr>"
  have "resume_t2 py_step ?e ?t = Inl (Exn StopIteration PNone, perform [] (?t\<lparr>world := W'\<rparr>))"
    using assms
    by (intro resume_t2_toplevel_raise) (simp_all add: inject_t2_def)
  then show ?thesis by (simp add: run_t2_def run_def)
qed

text \<open>
  Claim C6 says that \<open>echo_handler\<close> absorbs a \<open>ConnectionLost\<close> of its read or write,
  which is never surfaced to the run loop or to any other task. The handler does catch
  it, but the catch ends the handler, and the end of a top-level task is a
  \<open>StopIteration\<close> that \<open>resume\<close> re-raises and \<open>run\<close> does not catch. With two
  handlers added and the peer of the first gone (an empty \<open>recv\<close>), \<open>run\<close> of
  \<open>trampolinepfp.py\<close> ends with \<open>StopIteration\<close> while the second handler is still
  queued and has never run. In \<open>treamp2.py\<close> the \<open>ConnectionLost\<close> is raised in the
  sub-task \<open>nonblocking_read\<close>: it does reach the scheduler, whose \<open>resume\<close> catches it
  and queues the handler with it (and once more with \<open>None\<close>); thrown into the handler
  it ends it, and \<open>run\<close> ends with \<open>StopIteration\<close>, the second handler left suspended
  in its own read.
\<close>

theorem handler_end_stops_run:
  "run_pfp py_step 5
     (add 1 (add 0 (Trampoline
        \<lparr>heap = [Created (Echo_pfp (Some 7)), Created (Echo_pfp (Some 8))],
         env = quiet\<lparr>selects := [IsReady], recvs := [Ok []]\<rparr>\<rparr>)))
    = Raises (Exn StopIteration PNone)
        \<lparr>queue = [\<lparr>coroutine = 1, stack = [], val = PNone, exc = []\<rparr>], running = False,
         world = \<lparr>heap = [Finished, Created (Echo_pfp (Some 8))], env = quiet\<rparr>\<rparr>
   \<and> resume_t2 py_step \<lparr>coroutine = 1, stack = [0], val = PNone, exc = []\<rparr>
       (Trampoline \<lparr>heap = [Suspended (EchoAwaitRead_t2 7), Created (Read_t2 7 8192)],
                    env = quiet\<lparr>selects := [IsReady], recvs := [Ok []]\<rparr>\<rparr>)
    = Inr \<lparr>queue = [\<lparr>coroutine = 0, stack = [], val = PExcType ConnectionLost,
                      exc = [PExcInst ConnectionLost PNone, PTraceback]\<rparr>,
                    \<lparr>coroutine = 0, stack = [], val = PNone, exc = []\<rparr>],
           running = False,
           world = \<lparr>heap = [Suspended (EchoAwaitRead_t2 7), Finished], env = quiet\<rparr>\<rparr>
   \<and> run_t2 py_step 5
     (add 1 (add 0 (Trampoline
        \<lparr>heap = [Created (Echo_t2 (Some 7)), Created (Echo_t2 (Some 8))],
         env = quiet\<lparr>selects := [IsReady], recvs := [Ok []]\<rparr>\<rparr>)))
    = Raises (Exn StopIteration PNone)
        \<lparr>queue = [\<lparr>coroutine = 0, stack = [], val = PNone, exc = []\<rparr>,
                  \<lparr>coroutine = 1, stack = [], val = PNone, exc = []\<rparr>], running = False,
         world = \<lparr>heap = [Finished, Suspended (EchoAwaitRead_t2 8), Finished,
                          Suspended (Read_t2 8 8192)], env = quiet\<rparr>\<rparr>"
  by code_simp

text \<open>
  Claim C6 as amended: \<open>echo_handler\<close> never lets a \<open>ConnectionLost\<close> out, neither
  when it is started nor when it is resumed, with a value or an exception, at its read
  or its write. When \<open>ConnectionLost\<close> is thrown into it where it stands (as \<open>resume\<close> of
  \<open>treamp2.py\<close> delivers the fault of the handler's sub-task, with the arguments of
  \<open>sys.exc_info()\<close>), or when the read it delegates to in \<open>trampolinepfp.py\<close> raises it,
  in the handler's first run or a later one, the handler ends normally: the generator is
  exhausted (\<open>StopIteration\<close> with \<open>None\<close>) and has made no call on the scheduler. When
  the handler is a top-level task, that \<open>StopIteration\<close>, not the \<open>ConnectionLost\<close>,
  leaves \<open>run\<close>: \<open>run\<close> raises it, with \<open>running\<close> cleared and the tasks queued behind
  the handler still queued, not resumed.
\<close>

theorem echo_handler_ends_on_ConnectionLost:
  "((echo_suspended c \<and> lookup W g = Suspended c)
      \<or> ((c = Echo_pfp so \<or> c = Echo_t2 so) \<and> lookup W g = Created c \<and> i = Send u) \<longrightarrow>
      fst (py_step g i W) \<noteq> Raised (Exn ConnectionLost v))
   \<and> (echo_suspended c \<and> lookup W g = Suspended c
        \<and> throw_args args = Good (Exn ConnectionLost v) \<longrightarrow>
      py_step g (Throw args) W
        = (Raised (Exn StopIteration PNone), [], W\<lparr>heap := (heap W)[g := Finished]\<rparr>))
   \<and> ((lookup W g = Suspended (EchoReading_pfp s)
          \<or> (lookup W g = Created (Echo_pfp (Some s)) \<and> u = PNone))
        \<and> nonblocking_read_pfp s 8192 (env W) = (GRaise (Exn ConnectionLost PNone), E') \<longrightarrow>
      py_step g (Send u) W
        = (Raised (Exn StopIteration PNone), [], W\<lparr>env := E', heap := (heap W)[g := Finished]\<rparr>)
      \<and> run_pfp py_step (Suc n)
          \<lparr>queue = \<lparr>coroutine = g, stack = [], val = u, exc = []\<rparr> # q, running = r, world = W\<rparr>
        = Raises (Exn StopIteration PNone)
            \<lparr>queue = q, running = False,
             world = W\<lparr>env := E', heap := (heap W)[g := Finished]\<rparr>\<rparr>)
   \<and> (echo_suspended c \<and> lookup W g = Suspended c \<longrightarrow>
      run_t2 py_step (Suc n)
          \<lparr>queue = \<lparr>coroutine = g, stack = [], val = PExcType ConnectionLost,
                     exc = [PExcInst ConnectionLost v, PTraceback]\<rparr> # q,
           running = r, world = W\<rparr>
        = Raises (Exn StopIteration PNone)
            \<lparr>queue = q, running = False, world = W\<lparr>heap := (heap W)[g := Finished]\<rparr>\<rparr>)
   \<and> exc_info (Exn ConnectionLost v) = [PExcType ConnectionLost, PExcInst ConnectionLost v, PTraceback]
   \<and> throw_args (exc_info (Exn ConnectionLost v)) = Good (Exn ConnectionLost v)"
proof (intro conjI impI)
  assume "(echo_suspended c \<and> lookup W g = Suspended c)
      \<or> ((c = Echo_pfp so \<or> c = Echo_t2 so) \<and> lookup W g = Created c \<and> i = Send u)"
  then show "fst (py_step g i W) \<noteq> Raised (Exn ConnectionLost v)"
    using echo_step_absorbs [of c W g i v] echo_first_step_absorbs [of c so W g u v] by blast
next
  assume "echo_suspended c \<and> lookup W g = Suspended c
        \<and> throw_args args = Good (Exn ConnectionLost v)"
  then show "py_step g (Throw args) W
        = (Raised (Exn StopIteration PNone), [], W\<lparr>heap := (heap W)[g := Finished]\<rparr>)"
    using echo_step_thrown [of c W g args v] by blast
next
  assume a: "(lookup W g = Suspended (EchoReading_pfp s)
          \<or> (lookup W g = Created (Echo_pfp (Some s)) \<and> u = PNone))
        \<and> nonblocking_read_pfp s 8192 (env W) = (GRaise (Exn ConnectionLost PNone), E')"
  then show s: "py_step g (Send u) W
        = (Raised (Exn StopIteration PNone), [], W\<lparr>env := E', heap := (heap W)[g := Finished]\<rparr>)"
    using echo_step_read_lost [of W g s u E'] by blast
  from run_pfp_handler_ends [OF s]
  show "run_pfp py_step (Suc n)
          \<lparr>queue = \<lparr>coroutine = g, stack = [], val = u, exc = []\<rparr> # q, running = r, world = W\<rparr>
        = Raises (Exn StopIteration PNone)
            \<lparr>queue = q, running = False,
             world = W\<lparr>env := E', heap := (heap W)[g := Finished]\<rparr>\<rparr>" .
next
  assume a: "echo_suspended c \<and> lookup W g = Suspended c"
  then have "py_step g (Throw [PExcType ConnectionLost, PExcInst ConnectionLost v, PTraceback]) W
        = (Raised (Exn StopIteration PNone), [], W\<lparr>heap := (heap W)[g := Finished]\<rparr>)"
    using echo_step_thrown [of c W g _ v] throw_args_exc_info [of v] by blast
  from run_t2_handler_ends [OF this]
  show "run_t2 py_step (Suc n)
          \<lparr>queue = \<lparr>coroutine = g, stack = [], val = PExcType ConnectionLost,
                     exc = [PExcInst ConnectionLost v, PTraceback]\<rparr> # q,
           running = r, world = W\<rparr>
        = Raises (Exn StopIteration PNone)
            \<lparr>queue = q, running = False, world = W\<lparr>heap := (heap W)[g := Finished]\<rparr>\<rparr>" .
next
  show "exc_info (Exn ConnectionLost v) = [PExcType ConnectionLost, PExcInst ConnectionLost v, PTraceback]"
    by simp
  show "throw_args (exc_info (Exn ConnectionLost v)) = Good (Exn ConnectionLost v)"
    by (simp add: throw_args_exc_info)
qed

theorem echo_handler_ends_on_ConnectionLost_witness:
  "echo_suspended (EchoAwaitRead_t2 7)
   \<and> lookup \<lparr>heap = [Suspended (EchoAwaitRead_t2 7), Finished], env = quiet\<rparr> 0
       = Suspended (EchoAwaitRead_t2 7)
   \<and> fst (py_step 0 (Send (PBytes ''ping''))
        \<lparr>heap = [Suspended (EchoAwaitRead_t2 7), Finished], env = quiet\<rparr>)
       \<noteq> Raised (Exn ConnectionLost PNone)
   \<and> lookup \<lparr>heap = [Created (Echo_pfp (Some 7))],
               env = quiet\<lparr>selects := [IsReady], recvs := [Ok []]\<rparr>\<rparr> 0
       = Created (Echo_pfp (Some 7))
   \<and> fst (py_step 0 (Send PNone)
        \<lparr>heap = [Created (Echo_pfp (Some 7))],
         env = quiet\<lparr>selects := [IsReady], recvs := [Ok []]\<rparr>\<rparr>)
       \<noteq> Raised (Exn ConnectionLost PNone)
   \<and> throw_args [PExcType ConnectionLost, PExcInst ConnectionLost PNone, PTraceback]
       = Good (Exn ConnectionLost PNone)
   \<and> py_step 0 (Throw [PExcType ConnectionLost, PExcInst ConnectionLost PNone, PTraceback])
        \<lparr>heap = [Suspended (EchoAwaitRead_t2 7), Finished], env = quiet\<rparr>
       = (Raised (Exn StopIteration PNone), [], \<lparr>heap = [Finished, Finished], env = quiet\<rparr>)
   \<and> nonblocking_read_pfp 7 8192 (quiet\<lparr>selects := [IsReady], recvs := [Ok []]\<rparr>)
       = (GRaise (Exn ConnectionLost PNone), quiet)
   \<and> py_step 0 (Send PNone)
        \<lparr>heap = [Created (Echo_pfp (Some 7))],
         env = quiet\<lparr>selects := [IsReady], recvs := [Ok []]\<rparr>\<rparr>
       = (Raised (Exn StopIteration PNone), [], \<lparr>heap = [Finished], env = quiet\<rparr>)
   \<and> run_pfp py_step (Suc 0)
        \<lparr>queue = [\<lparr>coroutine = 0, stack = [], val = PNone, exc = []\<rparr>,
                  \<lparr>coroutine = 1, stack = [], val = PNone, exc = []\<rparr>],
         running = False,
         world = \<lparr>heap = [Created (Echo_pfp (Some 7))],
                  env = quiet\<lparr>selects := [IsReady], recvs := [Ok []]\<rparr>\<rparr>\<rparr>
       = Raises (Exn StopIteration PNone)
           \<lparr>queue = [\<lparr>coroutine = 1, stack = [], val = PNone, exc = []\<rparr>], running = False,
            world = \<lparr>heap = [Finished], env = quiet\<rparr>\<rparr>
   \<and> lookup \<lparr>heap = [Suspended (EchoReading_pfp 7)],
               env = quiet\<lparr>selects := [IsReady], recvs := [Ok []]\<rparr>\<rparr> 0
       = Suspended (EchoReading_pfp 7)
   \<and> py_step 0 (Send PNone)
        \<lparr>heap = [Suspended (EchoReading_pfp 7)],
         env = quiet\<lparr>selects := [IsReady], recvs := [Ok []]\<rparr>\<rparr>
       = (Raised (Exn StopIteration PNone), [], \<lparr>heap = [Finished], env = quiet\<rparr>)
   \<and> run_t2 py_step (Suc 0)
        \<lparr>queue = [\<lparr>coroutine = 0, stack = [], val = PExcType ConnectionLost,
                    exc = [PExcInst ConnectionLost PNone, PTraceback]\<rparr>,
                  \<lparr>coroutine = 1, stack = [], val = PNone, exc = []\<rparr>],
         running = False,
         world = \<lparr>heap = [Suspended (EchoAwaitRead_t2 7), Finished], env = quiet\<rparr>\<rparr>
       = Raises (Exn StopIteration PNone)
           \<lparr>queue = [\<lparr>coroutine = 1, stack = [], val = PNone, exc = []\<rparr>], running = False,
            world = \<lparr>heap = [Finished, Finished], env = quiet\<rparr>\<rparr>"
proof -
  let ?W = "\<lparr>heap = [Suspended (EchoAwaitRead_t2 7), Finished], env = quiet\<rparr>"
  let ?args = "[PExcType ConnectionLost, PExcInst ConnectionLost PNone, PTraceback]"
  let ?E = "quiet\<lparr>selects := [IsReady], recvs := [Ok []]\<rparr>"
  let ?F = "\<lparr>heap = [Created (Echo_pfp (Some 7))], env = ?E\<rparr>"
  let ?V = "\<lparr>heap = [Suspended (EchoReading_pfp 7)], env = ?E\<rparr>"
  let ?q = "[\<lparr>coroutine = 1, stack = [], val = PNone, exc = []\<rparr>]"
  note T = echo_handler_ends_on_ConnectionLost
  have a: "echo_suspended (EchoAwaitRead_t2 7)" by simp
  have b: "lookup ?W 0 = Suspended (EchoAwaitRead_t2 7)" by code_simp
  have c: "throw_args ?args = Good (Exn ConnectionLost PNone)" by code_simp
  have f: "lookup ?F 0 = Created (Echo_pfp (Some 7))" by code_simp
  have d: "lookup ?V 0 = Suspended (EchoReading_pfp 7)" by code_simp
  have e: "nonblocking_read_pfp 7 8192 ?E = (GRaise (Exn ConnectionLost PNone), quiet)"
    by code_simp
  have eF: "nonblocking_read_pfp 7 8192 (env ?F) = (GRaise (Exn ConnectionLost PNone), quiet)"
    using e by simp
  have eV: "nonblocking_read_pfp 7 8192 (env ?V) = (GRaise (Exn ConnectionLost PNone), quiet)"
    using e by simp
  from T [where c = "EchoAwaitRead_t2 7" and W = ?W and g = 0 and i = "Send (PBytes ''ping'')"
      and v = PNone] a b
  have r1: "fst (py_step 0 (Send (PBytes ''ping'')) ?W) \<noteq> Raised (Exn ConnectionLost PNone)"
    by blast
  from T [where c = "Echo_pfp (Some 7)" and so = "Some 7" and W = ?F and g = 0
      and i = "Send PNone" and u = PNone and v = PNone] f
  have r2: "fst (py_step 0 (Send PNone) ?F) \<noteq> Raised (Exn ConnectionLost PNone)"
    by blast
  from T [where c = "EchoAwaitRead_t2 7" and W = ?W and g = 0 and args = ?args and v = PNone] a b c
  have "py_step 0 (Throw ?args) ?W
          = (Raised (Exn StopIteration PNone), [], ?W\<lparr>heap := (heap ?W)[0 := Finished]\<rparr>)"
    by blast
  then have r3: "py_step 0 (Throw ?args) ?W
          = (Raised (Exn StopIteration PNone), [], \<lparr>heap = [Finished, Finished], env = quiet\<rparr>)"
    by simp
  from T [where W = ?F and g = 0 and s = 7 and E' = quiet and u = PNone and n = 0 and q = ?q
      and r = False] f eF
  have "py_step 0 (Send PNone) ?F
          = (Raised (Exn StopIteration PNone), [], ?F\<lparr>env := quiet, heap := (heap ?F)[0 := Finished]\<rparr>)
        \<and> run_pfp py_step (Suc 0)
            \<lparr>queue = \<lparr>coroutine = 0, stack = [], val = PNone, exc = []\<rparr> # ?q, running = False,
             world = ?F\<rparr>
          = Raises (Exn StopIteration PNone)
              \<lparr>queue = ?q, running = False,
               world = ?F\<lparr>env := quiet, heap := (heap ?F)[0 := Finished]\<rparr>\<rparr>"
    by blast
  then have r4: "py_step 0 (Send PNone) ?F
          = (Raised (Exn StopIteration PNone), [], \<lparr>heap = [Finished], env = quiet\<rparr>)"
    and r5: "run_pfp py_step (Suc 0)
            \<lparr>queue = [\<lparr>coroutine = 0, stack = [], val = PNone, exc = []\<rparr>,
                      \<lparr>coroutine = 1, stack = [], val = PNone, exc = []\<rparr>], running = False,
             world = ?F\<rparr>
          = Raises (Exn StopIteration PNone)
              \<lparr>queue = ?q, running = False, world = \<lparr>heap = [Finished], env = quiet\<rparr>\<rparr>"
    by simp_all
  from T [where W = ?V and g = 0 and s = 7 and E' = quiet and u = PNone and n = 0 and q = ?q
      and r = False] d eV
  have "py_step 0 (Send PNone) ?V
          = (Raised (Exn StopIteration PNone), [], ?V\<lparr>env := quiet, heap := (heap ?V)[0 := Finished]\<rparr>)"
    by blast
  then have r6: "py_step 0 (Send PNone) ?V
          = (Raised (Exn StopIteration PNone), [], \<lparr>heap = [Finished], env = quiet\<rparr>)"
    by simp
  from T [where c = "EchoAwaitRead_t2 7" and W = ?W and g = 0 and v = PNone and n = 0 and q = ?q
      and r = False] a b
  have "run_t2 py_step (Suc 0)
          \<lparr>queue = \<lparr>coroutine = 0, stack = [], val = PExcType ConnectionLost,
                     exc = [PExcInst ConnectionLost PNone, PTraceback]\<rparr> # ?q,
           running = False, world = ?W\<rparr>
        = Raises (Exn StopIteration PNone)
            \<lparr>queue = ?q, running = False, world = ?W\<lparr>heap := (heap ?W)[0 := Finished]\<rparr>\<rparr>"
    by blast
  then have r7: "run_t2 py_step (Suc 0)
          \<lparr>queue = [\<lparr>coroutine = 0, stack = [], val = PExcType ConnectionLost,
                     exc = [PExcInst ConnectionLost PNone, PTraceback]\<rparr>,
                    \<lparr>coroutine = 1, stack = [], val = PNone, exc = []\<rparr>],
           running = False, world = ?W\<rparr>
        = Raises (Exn StopIteration PNone)
            \<lparr>queue = ?q, running = False, world = \<lparr>heap = [Finished, Finished], env = quiet\<rparr>\<rparr>"
    by simp
  from a b r1 f r2 c r3 e r4 r5 d r6 r7 show ?thesis by (intro conjI)
qed

subsection \<open>C7: stop\<close>

text \<open>
  Claim C7 says that after \<open>stop()\<close> \<open>run\<close> returns, without raising, once the current
  resume step is finished. It raises when that step does: a top-level task that calls
  \<open>trampoline.stop()\<close> and then ends leaves \<open>run\<close> with its \<open>StopIteration\<close>, in both
  files; the other task is still queued.
\<close>

theorem run_raises_when_stopping_task_ends:
  "run_pfp stopping_last_task 2 (add 1 (add 0 (Trampoline ())))
     = Raises (Exn StopIteration PNone)
         \<lparr>queue = [\<lparr>coroutine = 1, stack = [], val = PNone, exc = []\<rparr>], running = False, world = ()\<rparr>
   \<and> run_t2 stopping_last_task 2 (add 1 (add 0 (Trampoline ())))
     = Raises (Exn StopIteration PNone)
         \<lparr>queue = [\<lparr>coroutine = 1, stack = [], val = PNone, exc = []\<rparr>], running = False, world = ()\<rparr>"
  by code_simp

text \<open>
  Claim C7 as amended: \<open>stop()\<close> only clears the flag, and a loop that finds it cleared
  returns at once. When \<open>stop()\<close> is called during a resume step, \<open>run\<close> is left after
  that step: no other task is resumed, the tasks queued behind the step are still
  queued, in order, followed by what the step scheduled, and \<open>running\<close> is \<open>False\<close>.
  \<open>run\<close> returns if no exception leaves \<open>resume\<close> (the task yielded; or, in
  \<open>trampolinepfp.py\<close>, it was exhausted and has a parent; or, in \<open>treamp2.py\<close>, it has a
  parent), and otherwise \<open>run\<close> raises the exception of the step (the task has no
  parent; or, in \<open>trampolinepfp.py\<close>, the exception is not \<open>StopIteration\<close>).
\<close>

theorem stop_ends_run_after_current_step:
  "\<not> running (stop t) \<and> queue (stop t) = queue t \<and> world (stop t) = world t
   \<and> run_loop resume (Suc n) (stop t) = Returns (stop t)
   \<and> (step (coroutine e) (inject_pfp e) w = (out, cmds, w') \<and> Stop \<in> set cmds
        \<and> ((\<exists>v. out = Yielded v) \<or> (\<exists>v. out = Raised (Exn StopIteration v) \<and> stack e \<noteq> [])) \<longrightarrow>
        (\<exists>t' new. run_pfp step (Suc (Suc n)) \<lparr>queue = e # q, running = r, world = w\<rparr> = Returns t'
           \<and> \<not> running t' \<and> world t' = w' \<and> queue t' = q @ new))
   \<and> (step (coroutine e) (inject_pfp e) w = (Raised (Exn c v), cmds, w') \<and> Stop \<in> set cmds
        \<and> (c \<noteq> StopIteration \<or> stack e = []) \<longrightarrow>
        (\<exists>t' new. run_pfp step (Suc (Suc n)) \<lparr>queue = e # q, running = r, world = w\<rparr>
             = Raises (Exn c v) t'
           \<and> \<not> running t' \<and> world t' = w' \<and> queue t' = q @ new))
   \<and> (step (coroutine e) (inject_t2 e) w = (out, cmds, w') \<and> Stop \<in> set cmds
        \<and> ((\<exists>v. out = Yielded v) \<or> stack e \<noteq> []) \<longrightarrow>
        (\<exists>t' new. run_t2 step (Suc (Suc n)) \<lparr>queue = e # q, running = r, world = w\<rparr> = Returns t'
           \<and> \<not> running t' \<and> world t' = w' \<and> queue t' = q @ new))
   \<and> (step (coroutine e) (inject_t2 e) w = (Raised x, cmds, w') \<and> Stop \<in> set cmds
        \<and> stack e = [] \<longrightarrow>
        (\<exists>t' new. run_t2 step (Suc (Suc n)) \<lparr>queue = e # q, running = r, world = w\<rparr> = Raises x t'
           \<and> \<not> running t' \<and> world t' = w' \<and> queue t' = q @ new))"
proof (intro conjI impI)
  show "\<not> running (stop t)" "queue (stop t) = queue t" "world (stop t) = world t"
    by (simp_all add: stop_def)
  show "run_loop resume (Suc n) (stop t) = Returns (stop t)"
    by (simp add: stop_def)
next
  assume "step (coroutine e) (inject_pfp e) w = (out, cmds, w') \<and> Stop \<in> set cmds
        \<and> ((\<exists>v. out = Yielded v) \<or> (\<exists>v. out = Raised (Exn StopIteration v) \<and> stack e \<noteq> []))"
  then show "\<exists>t' new. run_pfp step (Suc (Suc n)) \<lparr>queue = e # q, running = r, world = w\<rparr> = Returns t'
           \<and> \<not> running t' \<and> world t' = w' \<and> queue t' = q @ new"
    using stopped_pfp_returns [of step e w out cmds w' n q r] by blast
next
  assume "step (coroutine e) (inject_pfp e) w = (Raised (Exn c v), cmds, w') \<and> Stop \<in> set cmds
        \<and> (c \<noteq> StopIteration \<or> stack e = [])"
  then show "\<exists>t' new. run_pfp step (Suc (Suc n)) \<lparr>queue = e # q, running = r, world = w\<rparr>
             = Raises (Exn c v) t'
           \<and> \<not> running t' \<and> world t' = w' \<and> queue t' = q @ new"
    using stopped_pfp_raises [of step e w c v cmds w' "Suc n" q r] by blast
next
  assume "step (coroutine e) (inject_t2 e) w = (out, cmds, w') \<and> Stop \<in> set cmds
        \<and> ((\<exists>v. out = Yielded v) \<or> stack e \<noteq> [])"
  then show "\<exists>t' new. run_t2 step (Suc (Suc n)) \<lparr>queue = e # q, running = r, world = w\<rparr> = Returns t'
           \<and> \<not> running t' \<and> world t' = w' \<and> queue t' = q @ new"
    using stopped_t2_returns [of step e w out cmds w' n q r] by blast
next
  assume "step (coroutine e) (inject_t2 e) w = (Raised x, cmds, w') \<and> Stop \<in> set cmds
        \<and> stack e = []"
  then show "\<exists>t' new. run_t2 step (Suc (Suc n)) \<lparr>queue = e # q, running = r, world = w\<rparr> = Raises x t'
           \<and> \<not> running t' \<and> world t' = w' \<and> queue t' = q @ new"
    using stopped_t2_raises [of step e w x cmds w' "Suc n" q r] by blast
qed

theorem stop_ends_run_after_current_step_witness:
  "stopping_task 0 (inject_pfp \<lparr>coroutine = 0, stack = [], val = PNone, exc = []\<rparr>) () = (Yielded PNone, [Stop], ())
   \<and> stopping_task 0 (inject_t2 \<lparr>coroutine = 0, stack = [], val = PNone, exc = []\<rparr>) () = (Yielded PNone, [Stop], ())
   \<and> stopping_last_task 0 (inject_pfp \<lparr>coroutine = 0, stack = [], val = PNone, exc = []\<rparr>) ()
       = (Raised (Exn StopIteration PNone), [Stop], ())
   \<and> stopping_last_task 0 (inject_t2 \<lparr>coroutine = 0, stack = [], val = PNone, exc = []\<rparr>) ()
       = (Raised (Exn StopIteration PNone), [Stop], ())
   \<and> Stop \<in> set [Stop]
   \<and> stack \<lparr>coroutine = 0, stack = [], val = PNone, exc = []\<rparr> = []
   \<and> (\<exists>t' new. run_pfp stopping_task (Suc (Suc 0))
          \<lparr>queue = [\<lparr>coroutine = 0, stack = [], val = PNone, exc = []\<rparr>, \<lparr>coroutine = 1, stack = [], val = PNone, exc = []\<rparr>], running = False, world = ()\<rparr> = Returns t'
        \<and> \<not> running t' \<and> world t' = () \<and> queue t' = [\<lparr>coroutine = 1, stack = [], val = PNone, exc = []\<rparr>] @ new)
   \<and> (\<exists>t' new. run_pfp stopping_last_task (Suc (Suc 0))
          \<lparr>queue = [\<lparr>coroutine = 0, stack = [], val = PNone, exc = []\<rparr>, \<lparr>coroutine = 1, stack = [], val = PNone, exc = []\<rparr>], running = False, world = ()\<rparr> = Raises (Exn StopIteration PNone) t'
        \<and> \<not> running t' \<and> world t' = () \<and> queue t' = [\<lparr>coroutine = 1, stack = [], val = PNone, exc = []\<rparr>] @ new)
   \<and> (\<exists>t' new. run_t2 stopping_task (Suc (Suc 0))
          \<lparr>queue = [\<lparr>coroutine = 0, stack = [], val = PNone, exc = []\<rparr>, \<lparr>coroutine = 1, stack = [], val = PNone, exc = []\<rparr>], running = False, world = ()\<rparr> = Returns t'
        \<and> \<not> running t' \<and> world t' = () \<and> queue t' = [\<lparr>coroutine = 1, stack = [], val = PNone, exc = []\<rparr>] @ new)
   \<and> (\<exists>t' new. run_t2 stopping_last_task (Suc (Suc 0))
          \<lparr>queue = [\<lparr>coroutine = 0, stack = [], val = PNone, exc = []\<rparr>, \<lparr>coroutine = 1, stack = [], val = PNone, exc = []\<rparr>], running = False, world = ()\<rparr> = Raises (Exn StopIteration PNone) t'
        \<and> \<not> running t' \<and> world t' = () \<and> queue t' = [\<lparr>coroutine = 1, stack = [], val = PNone, exc = []\<rparr>] @ new)"
proof -
  let ?e = "\<lparr>coroutine = 0, stack = [], val = PNone, exc = []\<rparr>"
  let ?q = "[\<lparr>coroutine = 1, stack = [], val = PNone, exc = []\<rparr>]"
  note T = stop_ends_run_after_current_step
  have a1: "stopping_task (coroutine ?e) (inject_pfp ?e) () = (Yielded PNone, [Stop], ())"
    by (simp add: stopping_task_def)
  have a2: "stopping_task (coroutine ?e) (inject_t2 ?e) () = (Yielded PNone, [Stop], ())"
    by (simp add: stopping_task_def)
  have b1: "stopping_last_task (coroutine ?e) (inject_pfp ?e) ()
              = (Raised (Exn StopIteration PNone), [Stop], ())"
    by (simp add: stopping_last_task_def)
  have b2: "stopping_last_task (coroutine ?e) (inject_t2 ?e) ()
              = (Raised (Exn StopIteration PNone), [Stop], ())"
    by (simp add: stopping_last_task_def)
  have c: "Stop \<in> set [Stop]" by simp
  have d: "stack ?e = []" by simp
  have y: "\<exists>v. Yielded PNone = Yielded v" by simp
  from T [where step = stopping_task and e = ?e and w = "()" and out = "Yielded PNone"
      and cmds = "[Stop]" and w' = "()" and q = ?q and n = 0 and r = False] a1 c y
  have r1: "\<exists>t' new. run_pfp stopping_task (Suc (Suc 0))
          \<lparr>queue = ?e # ?q, running = False, world = ()\<rparr> = Returns t'
        \<and> \<not> running t' \<and> world t' = () \<and> queue t' = ?q @ new" by blast
  from T [where step = stopping_last_task and e = ?e and w = "()" and c = StopIteration and v = PNone
      and cmds = "[Stop]" and w' = "()" and q = ?q and n = 0 and r = False] b1 c d
  have r2: "\<exists>t' new. run_pfp stopping_last_task (Suc (Suc 0))
          \<lparr>queue = ?e # ?q, running = False, world = ()\<rparr> = Raises (Exn StopIteration PNone) t'
        \<and> \<not> running t' \<and> world t' = () \<and> queue t' = ?q @ new" by blast
  from T [where step = stopping_task and e = ?e and w = "()" and out = "Yielded PNone"
      and cmds = "[Stop]" and w' = "()" and q = ?q and n = 0 and r = False] a2 c y
  have r3: "\<exists>t' new. run_t2 stopping_task (Suc (Suc 0))
          \<lparr>queue = ?e # ?q, running = False, world = ()\<rparr> = Returns t'
        \<and> \<not> running t' \<and> world t' = () \<and> queue t' = ?q @ new" by blast
  from T [where step = stopping_last_task and e = ?e and w = "()" and x = "Exn StopIteration PNone"
      and cmds = "[Stop]" and w' = "()" and q = ?q and n = 0 and r = False] b2 c d
  have r4: "\<exists>t' new. run_t2 stopping_last_task (Suc (Suc 0))
          \<lparr>queue = ?e # ?q, running = False, world = ()\<rparr> = Raises (Exn StopIteration PNone) t'
        \<and> \<not> running t' \<and> world t' = () \<and> queue t' = ?q @ new" by blast
  from a1 have a1': "stopping_task 0 (inject_pfp ?e) () = (Yielded PNone, [Stop], ())" by simp
  from a2 have a2': "stopping_task 0 (inject_t2 ?e) () = (Yielded PNone, [Stop], ())" by simp
  from b1 have b1': "stopping_last_task 0 (inject_pfp ?e) ()
              = (Raised (Exn StopIteration PNone), [Stop], ())" by simp
  from b2 have b2': "stopping_last_task 0 (inject_t2 ?e) ()
              = (Raised (Exn StopIteration PNone), [Stop], ())" by simp
  from a1' a2' b1' b2' c d r1 r2 r3 r4 show ?thesis by (intro conjI)
qed

subsection \<open>C8: a bare yield of a top-level task\<close>

text \<open>
  Claim C8: when a task with an empty parent chain yields a value that is not a
  generator, the resume step ends normally and the scheduler has scheduled nothing: the
  state is the one the coroutine's own calls left. If the task made no such call and the
  queue held nothing else, the loop then only sleeps: the task is never resumed again.
\<close>

theorem bare_yield_is_dropped:
  assumes "stack e = []" and "\<forall>g. v \<noteq> PGen g"
  shows "(step (coroutine e) (inject_pfp e) (world t) = (Yielded v, cmds, w') \<longrightarrow>
            resume_pfp step e t = Inr (perform cmds (t\<lparr>world := w'\<rparr>)))
       \<and> (step (coroutine e) (inject_t2 e) (world t) = (Yielded v, cmds, w') \<longrightarrow>
            resume_t2 step e t = Inr (perform cmds (t\<lparr>world := w'\<rparr>)))
       \<and> (step (coroutine e) (inject_pfp e) w = (Yielded v, [], w') \<longrightarrow>
            run_loop (resume_pfp step) (Suc n) \<lparr>queue = [e], running = True, world = w\<rparr>
              = Spins \<lparr>queue = [], running = True, world = w'\<rparr>)
       \<and> (step (coroutine e) (inject_t2 e) w = (Yielded v, [], w') \<longrightarrow>
            run_loop (resume_t2 step) (Suc n) \<lparr>queue = [e], running = True, world = w\<rparr>
              = Spins \<lparr>queue = [], running = True, world = w'\<rparr>)"
proof (intro conjI impI)
  assume "step (coroutine e) (inject_pfp e) (world t) = (Yielded v, cmds, w')"
  then show "resume_pfp step e t = Inr (perform cmds (t\<lparr>world := w'\<rparr>))"
    using assms by (rule resume_pfp_bare_yield [rotated 2])
next
  assume "step (coroutine e) (inject_t2 e) (world t) = (Yielded v, cmds, w')"
  then show "resume_t2 step e t = Inr (perform cmds (t\<lparr>world := w'\<rparr>))"
    using assms by (rule resume_t2_bare_yield [rotated 2])
next
  assume s: "step (coroutine e) (inject_pfp e) w = (Yielded v, [], w')"
  have "resume_pfp step e \<lparr>queue = [], running = True, world = w\<rparr>
          = Inr \<lparr>queue = [], running = True, world = w'\<rparr>"
    using resume_pfp_bare_yield [OF assms, of step "\<lparr>queue = [], running = True, world = w\<rparr>" "[]" w'] s
    by simp
  then show "run_loop (resume_pfp step) (Suc n) \<lparr>queue = [e], running = True, world = w\<rparr>
              = Spins \<lparr>queue = [], running = True, world = w'\<rparr>"
    by (simp add: run_loop_idle)
next
  assume s: "step (coroutine e) (inject_t2 e) w = (Yielded v, [], w')"
  have "resume_t2 step e \<lparr>queue = [], running = True, world = w\<rparr>
          = Inr \<lparr>queue = [], running = True, world = w'\<rparr>"
    using resume_t2_bare_yield [OF assms, of step "\<lparr>queue = [], running = True, world = w\<rparr>" "[]" w'] s
    by simp
  then show "run_loop (resume_t2 step) (Suc n) \<lparr>queue = [e], running = True, world = w\<rparr>
              = Spins \<lparr>queue = [], running = True, world = w'\<rparr>"
    by (simp add: run_loop_idle)
qed

theorem bare_yield_is_dropped_witness:
  "stack \<lparr>coroutine = 0, stack = [], val = PNone, exc = []\<rparr> = []
   \<and> (\<forall>g. PNone \<noteq> PGen g)
   \<and> py_step 0 (inject_pfp \<lparr>coroutine = 0, stack = [], val = PNone, exc = []\<rparr>)
        \<lparr>heap = [Created (Listen_pfp (Some 3))], env = quiet\<rparr>
      = (Yielded PNone, [], \<lparr>heap = [Suspended (Listening_pfp 3 False)], env = quiet\<rparr>)
   \<and> run_loop (resume_pfp py_step) (Suc 9)
        \<lparr>queue = [\<lparr>coroutine = 0, stack = [], val = PNone, exc = []\<rparr>], running = True,
         world = \<lparr>heap = [Created (Listen_pfp (Some 3))], env = quiet\<rparr>\<rparr>
      = Spins \<lparr>queue = [], running = True,
               world = \<lparr>heap = [Suspended (Listening_pfp 3 False)], env = quiet\<rparr>\<rparr>"
proof -
  let ?e = "\<lparr>coroutine = 0, stack = [], val = PNone, exc = []\<rparr>"
  let ?W = "\<lparr>heap = [Created (Listen_pfp (Some 3))], env = quiet\<rparr>"
  let ?W' = "\<lparr>heap = [Suspended (Listening_pfp 3 False)], env = quiet\<rparr>"
  have a: "stack ?e = []" by simp
  have b: "\<forall>g. PNone \<noteq> PGen g" by simp
  have s: "py_step 0 (inject_pfp ?e) ?W = (Yielded PNone, [], ?W')" by code_simp
  from bare_yield_is_dropped [OF a b, of py_step "Trampoline ?W" "[]" ?W' ?W 9] s
  have "run_loop (resume_pfp py_step) (Suc 9) \<lparr>queue = [?e], running = True, world = ?W\<rparr>
      = Spins \<lparr>queue = [], running = True, world = ?W'\<rparr>" by simp
  with a b s show ?thesis by simp
qed

subsection \<open>C9: the listener\<close>

text \<open>
  Claim C9 says that after each accepted connection the listener schedules a handler
  and goes back to accepting. Evaluated on both files with a connection (socket 7)
  pending at the first poll: \<open>listen_on\<close> yields the client socket to the scheduler,
  which has no parent to give it to and schedules nothing; the queue is empty from then
  on, \<open>run\<close> only sleeps, no handler generator has been created, and no second
  \<open>accept\<close> is ever tried, for any number of further iterations. Were the listener resumed
  once more, \<open>yield from\<close> would give it \<open>None\<close> (what \<open>nonblocking_accept\<close> returns), not
  the socket: \<open>trampolinepfp.py\<close> adds \<open>handler(None)\<close>, \<open>treamp2.py\<close> adds nothing.
\<close>

theorem listener_is_dropped_after_first_accept:
  "run_pfp py_step (Suc (Suc n))
     (add 0 (Trampoline \<lparr>heap = [Created (Listen_pfp (Some 3))],
                         env = quiet\<lparr>selects := [IsReady], accepts := [Ok 7]\<rparr>\<rparr>))
    = Spins \<lparr>queue = [], running = True,
             world = \<lparr>heap = [Suspended (Listening_pfp 3 True)], env = quiet\<rparr>\<rparr>
   \<and> run_t2 py_step (Suc (Suc n))
     (add 0 (Trampoline \<lparr>heap = [Created (Listen_t2 (Some 3))],
                         env = quiet\<lparr>selects := [IsReady], accepts := [Ok 7]\<rparr>\<rparr>))
    = Spins \<lparr>queue = [], running = True,
             world = \<lparr>heap = [Suspended (Listening_t2 3 True)], env = quiet\<rparr>\<rparr>
   \<and> py_step 0 (Send PNone) \<lparr>heap = [Suspended (Listening_pfp 3 True)], env = quiet\<rparr>
    = (Yielded PNone, [Add 1],
       \<lparr>heap = [Suspended (Listening_pfp 3 False), Created (Echo_pfp None)], env = quiet\<rparr>)
   \<and> py_step 0 (Send PNone) \<lparr>heap = [Suspended (Listening_t2 3 True)], env = quiet\<rparr>
    = (Yielded PNone, [], \<lparr>heap = [Suspended (Listening_t2 3 False)], env = quiet\<rparr>)"
proof -
  let ?e = "\<lparr>coroutine = 0, stack = [], val = PNone, exc = []\<rparr>"
  let ?E = "quiet\<lparr>selects := [IsReady], accepts := [Ok 7]\<rparr>"
  have p: "resume_pfp py_step ?e
             \<lparr>queue = [], running = True, world = \<lparr>heap = [Created (Listen_pfp (Some 3))], env = ?E\<rparr>\<rparr>
           = Inr \<lparr>queue = [], running = True,
                  world = \<lparr>heap = [Suspended (Listening_pfp 3 True)], env = quiet\<rparr>\<rparr>"
    by code_simp
  have t: "resume_t2 py_step ?e
             \<lparr>queue = [], running = True, world = \<lparr>heap = [Created (Listen_t2 (Some 3))], env = ?E\<rparr>\<rparr>
           = Inr \<lparr>queue = [], running = True,
                  world = \<lparr>heap = [Suspended (Listening_t2 3 True)], env = quiet\<rparr>\<rparr>"
    by code_simp
  have r1: "run_pfp py_step (Suc (Suc n))
     (add 0 (Trampoline \<lparr>heap = [Created (Listen_pfp (Some 3))], env = ?E\<rparr>))
    = Spins \<lparr>queue = [], running = True,
             world = \<lparr>heap = [Suspended (Listening_pfp 3 True)], env = quiet\<rparr>\<rparr>"
    using p by (simp add: run_pfp_def run_def add_def schedule_def Trampoline_def run_loop_idle)
  have r2: "run_t2 py_step (Suc (Suc n))
     (add 0 (Trampoline \<lparr>heap = [Created (Listen_t2 (Some 3))], env = ?E\<rparr>))
    = Spins \<lparr>queue = [], running = True,
             world = \<lparr>heap = [Suspended (Listening_t2 3 True)], env = quiet\<rparr>\<rparr>"
    using t by (simp add: run_t2_def run_def add_def schedule_def Trampoline_def run_loop_idle)
  have r3: "py_step 0 (Send PNone) \<lparr>heap = [Suspended (Listening_pfp 3 True)], env = quiet\<rparr>
    = (Yielded PNone, [Add 1],
       \<lparr>heap = [Suspended (Listening_pfp 3 False), Created (Echo_pfp None)], env = quiet\<rparr>)"
    by code_simp
  have r4: "py_step 0 (Send PNone) \<lparr>heap = [Suspended (Listening_t2 3 True)], env = quiet\<rparr>
    = (Yielded PNone, [], \<lparr>heap = [Suspended (Listening_t2 3 False)], env = quiet\<rparr>)"
    by code_simp
  from r1 r2 r3 r4 show ?thesis by (intro conjI)
qed

subsection \<open>C10: the flag when run exits\<close>

text \<open>
  Claim C10: whenever \<open>run\<close> exits, by returning or by an exception, \<open>running\<close> is
  \<open>False\<close> in the state it leaves; and \<open>run\<close> can be called again from that state, since
  it sets the flag itself before the loop.
\<close>

theorem run_exit_clears_running:
  "(run_pfp step n t = Returns t' \<or> run_pfp step n t = Raises x t'
      \<or> run_t2 step n t = Returns t' \<or> run_t2 step n t = Raises x t' \<longrightarrow> \<not> running t')
   \<and> run_pfp step m (t'\<lparr>running := False\<rparr>) = run_pfp step m (t'\<lparr>running := True\<rparr>)
   \<and> run_t2 step m (t'\<lparr>running := False\<rparr>) = run_t2 step m (t'\<lparr>running := True\<rparr>)"
  by (auto simp: run_pfp_def run_t2_def run_flag_irrelevant dest: run_Returns run_Raises)

theorem run_exit_clears_running_witness:
  "run_pfp py_step 3
     (add 1 (add 0 (Trampoline
        \<lparr>heap = [Created (Echo_pfp (Some 7)), Created (Listen_pfp (Some 3))],
         env = quiet\<lparr>selects := [SelFault]\<rparr>\<rparr>)))
    = Raises (Exn OSError PNone)
        \<lparr>queue = [\<lparr>coroutine = 1, stack = [], val = PNone, exc = []\<rparr>], running = False,
         world = \<lparr>heap = [Finished, Created (Listen_pfp (Some 3))], env = quiet\<rparr>\<rparr>
   \<and> \<not> running
        \<lparr>queue = [\<lparr>coroutine = 1, stack = [], val = PNone, exc = []\<rparr>], running = False,
         world = \<lparr>heap = [Finished, Created (Listen_pfp (Some 3))], env = quiet\<rparr>\<rparr>
   \<and> run_t2 stopping_task 3 (add 1 (add 0 (Trampoline ())))
    = Returns \<lparr>queue = [\<lparr>coroutine = 1, stack = [], val = PNone, exc = []\<rparr>], running = False,
               world = ()\<rparr>"
proof -
  let ?T = "add 1 (add 0 (Trampoline
        \<lparr>heap = [Created (Echo_pfp (Some 7)), Created (Listen_pfp (Some 3))],
         env = quiet\<lparr>selects := [SelFault]\<rparr>\<rparr>))"
  let ?T' = "\<lparr>queue = [\<lparr>coroutine = 1, stack = [], val = PNone, exc = []\<rparr>], running = False,
         world = \<lparr>heap = [Finished, Created (Listen_pfp (Some 3))], env = quiet\<rparr>\<rparr>"
  have h: "run_pfp py_step 3 ?T = Raises (Exn OSError PNone) ?T'"
    by code_simp
  have g: "run_t2 stopping_task 3 (add 1 (add 0 (Trampoline ())))
    = Returns \<lparr>queue = [\<lparr>coroutine = 1, stack = [], val = PNone, exc = []\<rparr>], running = False,
               world = ()\<rparr>"
    by code_simp
  from h run_exit_clears_running [of py_step 3 ?T ?T' "Exn OSError PNone" 0]
  have "\<not> running ?T'" by blast
  with h g show ?thesis by simp
qed

end
